theory Spec2Isabelle
  imports Complex_Main "HOL-Library.Log_Nat"
begin

section \<open>H(curl div) finite elements of \<^verbatim>\<open>fem/hcurldivfe.hpp\<close>\<close>

text \<open>
  A shallow embedding of the shape-function generator of \<^verbatim>\<open>hcurldivfe.hpp\<close>:
  the building blocks (\<^verbatim>\<open>Sigma_gradv\<close>, \<^verbatim>\<open>Sigma_gradu_v\<close>, ...), the degree-of-freedom
  counts (\<^verbatim>\<open>ComputeNDof\<close>), the enumeration of the basis functions (\<^verbatim>\<open>T_CalcShape\<close>)
  for the triangle and the tetrahedron, and the four evaluation entry points of
  \<^verbatim>\<open>T_HCurlDivFE\<close>.

  Conventions.
  \<^item> A C++ \<^verbatim>\<open>int\<close> is a HOL \<open>int\<close>, and the declared sizes of the scratch arrays
    (\<^verbatim>\<open>ArrayMem<...,20> ha(maxorder_facet+1)\<close>, \<^verbatim>\<open>v\<close>, \<^verbatim>\<open>u\<close> and the unused \<^verbatim>\<open>dubb\<close>)
    are not part of the model. The model is the code for orders at which no \<^verbatim>\<open>int\<close>
    product wraps around, no array size is negative and every array fits its storage;
    the properties that depend on this are stated for orders in \<open>0..6\<close>.
  \<^item> A \<^verbatim>\<open>double\<close> that holds a shape value is a HOL \<open>real\<close> (exact arithmetic). The
    \<^verbatim>\<open>double\<close> arithmetic that decides an integer (the interior count of the
    tetrahedron, a loop bound) is modelled with binary64 rounding, see \<open>fl\<close>.
  \<^item> \<^verbatim>\<open>throw Exception(msg)\<close> is the value \<open>Inl (Exception msg)\<close>.
  \<^item> The callback \<^verbatim>\<open>shape[ii++] = val\<close> appends the pair (row number, value) to the
    list of rows written so far.
\<close>

subsection \<open>Exceptions\<close>

datatype exn = Exception string

subsection \<open>Loops\<close>

text \<open>\<^verbatim>\<open>for (int i = i0; i <= n; i++) s = body(i, s);\<close>\<close>

function for_le :: "int \<Rightarrow> int \<Rightarrow> (int \<Rightarrow> 's \<Rightarrow> 's) \<Rightarrow> 's \<Rightarrow> 's" where
  "for_le i n body s = (if i \<le> n then for_le (i + 1) n body (body i s) else s)"
  by pat_completeness auto
termination
  by (relation "measure (\<lambda>(i, n, body, s). nat (n + 1 - i))") auto

text \<open>The same loop with a body that may throw: the first exception leaves the loop.\<close>

function for_le_exn :: "int \<Rightarrow> int \<Rightarrow> (int \<Rightarrow> 's \<Rightarrow> exn + 's) \<Rightarrow> 's \<Rightarrow> exn + 's" where
  "for_le_exn i n body s =
     (if i \<le> n
      then (case body i s of Inl e \<Rightarrow> Inl e | Inr s' \<Rightarrow> for_le_exn (i + 1) n body s')
      else Inr s)"
  by pat_completeness auto
termination
  by (relation "measure (\<lambda>(i, n, body, s). nat (n + 1 - i))") auto

text \<open>\<^verbatim>\<open>for (int l = l0; l < b; l++)\<close> where the bound \<open>b\<close> is a \<^verbatim>\<open>double\<close>.\<close>

function for_lt :: "int \<Rightarrow> rat \<Rightarrow> (int \<Rightarrow> 's \<Rightarrow> 's) \<Rightarrow> 's \<Rightarrow> 's" where
  "for_lt l b body s = (if of_int l < b then for_lt (l + 1) b body (body l s) else s)"
  by pat_completeness auto
termination
  by (relation "measure (\<lambda>(l, b, body, s). nat (\<lceil>b\<rceil> - l))") (auto simp: less_ceiling_iff)

declare for_le.simps [simp del] for_le_exn.simps [simp del] for_lt.simps [simp del]

subsection \<open>Reading and filling the scratch arrays\<close>

text \<open>
  An \<^verbatim>\<open>ArrayMem\<close> is the list of the entries an evaluator has written into it so far.
  An evaluator overwrites a prefix (\<open>afill\<close>). A read \<^verbatim>\<open>a[i]\<close> inside that range is
  \<open>Some\<close> of the entry; the C++ read is unchecked, so a read outside the range does not
  throw: it yields whatever the memory holds, which is \<open>None\<close> here.
\<close>

definition afill :: "'a list \<Rightarrow> 'a list \<Rightarrow> 'a list" where
  "afill new old = new @ drop (length new) old"

definition aread :: "'a list \<Rightarrow> int \<Rightarrow> 'a option" where
  "aread a i = (if 0 \<le> i \<and> i < int (length a) then Some (a ! nat i) else None)"

subsection \<open>The differentiable scalars \<^verbatim>\<open>AutoDiff<D>\<close> and \<^verbatim>\<open>AutoDiffDiff<D>\<close>\<close>


record AutoDiffDiff =
  Value :: real
  DValues :: "real list"
  DDValues :: "real list list"

definition DValue :: "AutoDiffDiff \<Rightarrow> nat \<Rightarrow> real" where
  "DValue a i = DValues a ! i"

definition DDValue :: "AutoDiffDiff \<Rightarrow> nat \<Rightarrow> nat \<Rightarrow> real" where
  "DDValue a i j = DDValues a ! i ! j"

text \<open>\<^verbatim>\<open>AutoDiffDiff<D>(c)\<close>: a constant, all derivatives zero.\<close>

definition ad_const :: "nat \<Rightarrow> real \<Rightarrow> AutoDiffDiff" where
  "ad_const D c = \<lparr>Value = c, DValues = replicate D 0, DDValues = replicate D (replicate D 0)\<rparr>"

text \<open>\<^verbatim>\<open>AutoDiffDiff<D>(x, i)\<close>: the \<open>i\<close>-th coordinate, with value \<open>x\<close>.\<close>

definition ad_var :: "nat \<Rightarrow> real \<Rightarrow> nat \<Rightarrow> AutoDiffDiff" where
  "ad_var D x i =
     \<lparr>Value = x, DValues = (replicate D 0)[i := 1], DDValues = replicate D (replicate D 0)\<rparr>"


definition ad_plus :: "AutoDiffDiff \<Rightarrow> AutoDiffDiff \<Rightarrow> AutoDiffDiff" where
  "ad_plus a b =
     \<lparr>Value = Value a + Value b,
      DValues = map2 (+) (DValues a) (DValues b),
      DDValues = map2 (map2 (+)) (DDValues a) (DDValues b)\<rparr>"

definition ad_minus :: "AutoDiffDiff \<Rightarrow> AutoDiffDiff \<Rightarrow> AutoDiffDiff" where
  "ad_minus a b =
     \<lparr>Value = Value a - Value b,
      DValues = map2 (-) (DValues a) (DValues b),
      DDValues = map2 (map2 (-)) (DDValues a) (DDValues b)\<rparr>"

definition ad_times :: "AutoDiffDiff \<Rightarrow> AutoDiffDiff \<Rightarrow> AutoDiffDiff" where
  "ad_times a b =
     (let D = length (DValues a) in
      \<lparr>Value = Value a * Value b,
       DValues = map (\<lambda>i. DValue a i * Value b + Value a * DValue b i) [0..<D],
       DDValues =
         map (\<lambda>i. map (\<lambda>j. DDValue a i j * Value b + DValue a i * DValue b j
                            + DValue a j * DValue b i + Value a * DDValue b i j) [0..<D])
           [0..<D]\<rparr>)"

text \<open>The mixed operations with a \<^verbatim>\<open>double\<close>: \<^verbatim>\<open>c - a\<close>, \<^verbatim>\<open>a - c\<close> and \<^verbatim>\<open>c * a\<close>.\<close>

definition c_minus :: "real \<Rightarrow> AutoDiffDiff \<Rightarrow> AutoDiffDiff" where
  "c_minus c a =
     \<lparr>Value = c - Value a, DValues = map uminus (DValues a),
      DDValues = map (map uminus) (DDValues a)\<rparr>"

definition minus_c :: "AutoDiffDiff \<Rightarrow> real \<Rightarrow> AutoDiffDiff" where
  "minus_c a c = a\<lparr>Value := Value a - c\<rparr>"

definition c_times :: "real \<Rightarrow> AutoDiffDiff \<Rightarrow> AutoDiffDiff" where
  "c_times c a =
     \<lparr>Value = c * Value a, DValues = map ((*) c) (DValues a),
      DDValues = map (map ((*) c)) (DDValues a)\<rparr>"

subsection \<open>The building blocks\<close>

text \<open>
  One constructor per building-block class that \<^verbatim>\<open>T_CalcShape\<close> hands to the callback;
  \<open>Shape\<close> and \<open>DivShape\<close> are the member functions of the classes, a \<^verbatim>\<open>Vec<n>\<close> being
  the list of its \<open>n\<close> entries. \<open>T_Id_v D\<close> is \<^verbatim>\<open>T_Id_v<D>\<close>.
\<close>

datatype shapefn =
    Sigma_gradv AutoDiffDiff
  | Sigma_gradu_v AutoDiffDiff AutoDiffDiff
  | Curlgraduv_graducurlv AutoDiffDiff AutoDiffDiff
  | T_type4 AutoDiffDiff AutoDiffDiff AutoDiffDiff
  | T_Dl1_o_Dl2xDl3_v AutoDiffDiff AutoDiffDiff AutoDiffDiff AutoDiffDiff
  | T_Id_v nat AutoDiffDiff

fun Shape :: "shapefn \<Rightarrow> real list" where
  "Shape (Sigma_gradv v) =
     [- DDValue v 0 1, DDValue v 0 0, - DDValue v 1 1, DDValue v 0 1]"
| "Shape (Sigma_gradu_v u v) =
     [- DDValue u 1 0 * Value v - DValue v 1 * DValue u 0,
      DDValue u 0 0 * Value v + DValue v 0 * DValue u 0,
      - DDValue u 1 1 * Value v - DValue v 1 * DValue u 1,
      DDValue u 0 1 * Value v + DValue v 0 * DValue u 1]"
| "Shape (Curlgraduv_graducurlv u v) =
     [- DDValue u 1 0 * Value v + DValue v 1 * DValue u 0,
      DDValue u 0 0 * Value v - DValue v 0 * DValue u 0,
      - DDValue u 1 1 * Value v + DValue v 1 * DValue u 1,
      DDValue u 0 1 * Value v - DValue v 0 * DValue u 1]"
| "Shape (T_type4 l1 l2 v) =
     (let lam1x = DValue l1 0; lam1y = DValue l1 1; lam1xx = DDValue l1 0 0;
          lam1xy = DDValue l1 1 0; lam1yx = DDValue l1 0 1; lam1yy = DDValue l1 1 1;
          lam2x = DValue l2 0; lam2y = DValue l2 1; lam2xx = DDValue l2 0 0;
          lam2xy = DDValue l2 1 0; lam2yx = DDValue l2 0 1; lam2yy = DDValue l2 1 1;
          vx = DValue v 0; vy = DValue v 1
      in [Value v * (- lam1yx * Value l2 - lam1x * lam2y + lam2yx * Value l1 + lam2x * lam1y)
            - (lam1x * Value l2 - lam2x * Value l1) * vy,
          Value v * (lam1xx * Value l2 + lam1x * lam2x - lam2xx * Value l1 - lam2x * lam1x)
            + (lam1x * Value l2 - lam2x * Value l1) * vx,
          Value v * (- lam1yy * Value l2 - lam1y * lam2y + lam2yy * Value l1 + lam2y * lam1y)
            - (lam1y * Value l2 - lam2y * Value l1) * vy,
          Value v * (lam1xy * Value l2 + lam1y * lam2x - lam2xy * Value l1 - lam2y * lam1x)
            + (lam1y * Value l2 - lam2y * Value l1) * vx])"
| "Shape (T_Dl1_o_Dl2xDl3_v l1 l2 l3 v) =
     (let cross1 = DValue l2 1 * DValue l3 2 - DValue l2 2 * DValue l3 1;
          cross2 = - (DValue l2 0 * DValue l3 2 - DValue l2 2 * DValue l3 0);
          cross3 = DValue l2 0 * DValue l3 1 - DValue l2 1 * DValue l3 0
      in concat (map (\<lambda>i. [Value v * DValue l1 i * cross1,
                             Value v * DValue l1 i * cross2,
                             Value v * DValue l1 i * cross3]) [0..<3]))"
| "Shape (T_Id_v D v) =
     map (\<lambda>k. if k mod (D + 1) = 0 then Value v else 0) [0..<D * D]"

fun DivShape :: "shapefn \<Rightarrow> real list" where
  "DivShape (Sigma_gradv v) = [0, 0]"
| "DivShape (Sigma_gradu_v u v) = [0, 0]"
| "DivShape (Curlgraduv_graducurlv u v) =
     (let uxx = DDValue u 0 0; uxy = DDValue u 0 1; uyy = DDValue u 1 1;
          vx = DValue v 0; vy = DValue v 1
      in map ((*) (- 2)) [- uxx * vy + uxy * vx, - uxy * vy + uyy * vx])"
| "DivShape (T_type4 l1 l2 v) = [0, 0]"
| "DivShape (T_Dl1_o_Dl2xDl3_v l1 l2 l3 v) =
     (let vx = DValue v 0; vy = DValue v 1; vz = DValue v 2;
          cross1 = DValue l2 1 * DValue l3 2 - DValue l2 2 * DValue l3 1;
          cross2 = - (DValue l2 0 * DValue l3 2 - DValue l2 2 * DValue l3 0);
          cross3 = DValue l2 0 * DValue l3 1 - DValue l2 1 * DValue l3 0
      in [vx * DValue l1 0 * cross1 + vy * DValue l1 0 * cross2 + vz * DValue l1 0 * cross3,
          vx * DValue l1 1 * cross1 + vy * DValue l1 1 * cross2 + vz * DValue l1 1 * cross3,
          vx * DValue l1 2 * cross1 + vy * DValue l1 2 * cross2 + vz * DValue l1 2 * cross3])"
| "DivShape (T_Id_v D v) = map (DValue v) [0..<D]"

text \<open>
  The block of the surface (trace) triangle, \<^verbatim>\<open>T_Dl1_o_Dl2xDl3_v_surf\<close>: its \<open>DivShape\<close>
  is a single \<^verbatim>\<open>throw\<close>.
\<close>

datatype surf_shapefn =
  T_Dl1_o_Dl2xDl3_v_surf AutoDiffDiff AutoDiffDiff AutoDiffDiff AutoDiffDiff

fun Shape_surf :: "surf_shapefn \<Rightarrow> real list" where
  "Shape_surf (T_Dl1_o_Dl2xDl3_v_surf l1 l2 l3 v) =
     (let cross = DValue l2 0 * DValue l3 1 - DValue l2 1 * DValue l3 0
      in [Value v * DValue l1 0 * cross, Value v * DValue l1 1 * cross])"

fun DivShape_surf :: "surf_shapefn \<Rightarrow> exn + real list" where
  "DivShape_surf (T_Dl1_o_Dl2xDl3_v_surf l1 l2 l3 v) =
     Inl (Exception ''not available on surface'')"

subsection \<open>The external collaborators\<close>

text \<open>
  The topology tables and the orthogonal-polynomial evaluators are not part of the
  sources; they are parameters of the model, collected in one record. A polynomial
  family is the function that gives the value of its \<open>k\<close>-th member at the arguments of
  the call; nothing is assumed about these values.
\<close>

record env =
  GetEdges_TRIG :: "(nat \<times> nat) list"
  GetFaces_TET :: "(nat \<times> nat \<times> nat) list"
  ScaledLegendre_k :: "nat \<Rightarrow> AutoDiffDiff \<Rightarrow> AutoDiffDiff \<Rightarrow> AutoDiffDiff"
  TrigExt_k :: "nat \<Rightarrow> AutoDiffDiff \<Rightarrow> AutoDiffDiff \<Rightarrow> AutoDiffDiff"
  Legendre_k :: "nat \<Rightarrow> AutoDiffDiff \<Rightarrow> AutoDiffDiff"
  LegendreMult_k :: "nat \<Rightarrow> AutoDiffDiff \<Rightarrow> AutoDiffDiff \<Rightarrow> AutoDiffDiff"
  Dubiner_k :: "nat \<Rightarrow> AutoDiffDiff \<Rightarrow> AutoDiffDiff \<Rightarrow> AutoDiffDiff"
  LegendreScaled1_k :: "nat \<Rightarrow> AutoDiffDiff \<Rightarrow> AutoDiffDiff \<Rightarrow> AutoDiffDiff"
  JacobiScaledMult1_k ::
    "int \<Rightarrow> nat \<Rightarrow> AutoDiffDiff \<Rightarrow> AutoDiffDiff \<Rightarrow> AutoDiffDiff \<Rightarrow> AutoDiffDiff"
  JacobiMult_k :: "int \<Rightarrow> nat \<Rightarrow> AutoDiffDiff \<Rightarrow> AutoDiffDiff \<Rightarrow> AutoDiffDiff"

text \<open>
  Modelled from the spec: the evaluators that fill an array. Section 6 of the
  specification: given a target degree, an evaluator produces the sequence of the basis
  values up to that degree. \<^verbatim>\<open>ScaledLegendrePolynomial(n, x, t, a)\<close>,
  \<^verbatim>\<open>LegendrePolynomial::Eval(n, x, a)\<close> and \<^verbatim>\<open>LegendrePolynomial::EvalMult(n, x, c, a)\<close>
  write the entries \<open>0..n\<close>; the integrated Legendre polynomials start at degree 2, so
  \<^verbatim>\<open>IntegratedLegendreMonomialExt::CalcTrigExt(n, x, y, a)\<close> writes the entries \<open>0..n-2\<close>;
  \<^verbatim>\<open>DubinerBasis3::Eval(n, x, y, a)\<close> writes the \<open>(n+1)(n+2)/2\<close> members of total degree
  at most \<open>n\<close> (the size the source allocates for its array).
\<close>

definition ScaledLegendrePolynomial ::
  "env \<Rightarrow> int \<Rightarrow> AutoDiffDiff \<Rightarrow> AutoDiffDiff \<Rightarrow> AutoDiffDiff list \<Rightarrow> AutoDiffDiff list" where
  "ScaledLegendrePolynomial E n x t a =
     afill (map (\<lambda>k. ScaledLegendre_k E k x t) [0..<nat (n + 1)]) a"

definition CalcTrigExt ::
  "env \<Rightarrow> int \<Rightarrow> AutoDiffDiff \<Rightarrow> AutoDiffDiff \<Rightarrow> AutoDiffDiff list \<Rightarrow> AutoDiffDiff list" where
  "CalcTrigExt E n x y a = afill (map (\<lambda>k. TrigExt_k E k x y) [0..<nat (n - 1)]) a"

definition Legendre_Eval ::
  "env \<Rightarrow> int \<Rightarrow> AutoDiffDiff \<Rightarrow> AutoDiffDiff list \<Rightarrow> AutoDiffDiff list" where
  "Legendre_Eval E n x a = afill (map (\<lambda>k. Legendre_k E k x) [0..<nat (n + 1)]) a"

definition Legendre_EvalMult ::
  "env \<Rightarrow> int \<Rightarrow> AutoDiffDiff \<Rightarrow> AutoDiffDiff \<Rightarrow> AutoDiffDiff list \<Rightarrow> AutoDiffDiff list" where
  "Legendre_EvalMult E n x c a =
     afill (map (\<lambda>k. LegendreMult_k E k x c) [0..<nat (n + 1)]) a"

definition DubinerBasis3_Eval ::
  "env \<Rightarrow> int \<Rightarrow> AutoDiffDiff \<Rightarrow> AutoDiffDiff \<Rightarrow> AutoDiffDiff list \<Rightarrow> AutoDiffDiff list" where
  "DubinerBasis3_Eval E n x y a =
     afill (map (\<lambda>k. Dubiner_k E k x y) [0..<nat ((n + 1) * (n + 2) div 2)]) a"

text \<open>
  Modelled from the spec: the evaluators that push their values to a callback
  (\<^verbatim>\<open>SBLambda\<close>), called with the index \<open>k\<close> and the \<open>k\<close>-th value for \<open>k = 0..n\<close> in
  this order, and not at all for \<open>n < 0\<close>. The second argument of the
  \<^verbatim>\<open>JacobiPolynomialAlpha\<close> evaluators is the \<open>alpha\<close> the object holds at the call.
\<close>

definition EvalScaled1Assign ::
  "env \<Rightarrow> int \<Rightarrow> AutoDiffDiff \<Rightarrow> AutoDiffDiff \<Rightarrow> (nat \<Rightarrow> AutoDiffDiff \<Rightarrow> 's \<Rightarrow> 's) \<Rightarrow> 's \<Rightarrow> 's" where
  "EvalScaled1Assign E n x t cb s =
     for_le 0 n (\<lambda>k. cb (nat k) (LegendreScaled1_k E (nat k) x t)) s"

definition EvalScaledMult1Assign ::
  "env \<Rightarrow> int \<Rightarrow> int \<Rightarrow> AutoDiffDiff \<Rightarrow> AutoDiffDiff \<Rightarrow> AutoDiffDiff
     \<Rightarrow> (nat \<Rightarrow> AutoDiffDiff \<Rightarrow> 's \<Rightarrow> 's) \<Rightarrow> 's \<Rightarrow> 's" where
  "EvalScaledMult1Assign E alpha n x t c cb s =
     for_le 0 n (\<lambda>k. cb (nat k) (JacobiScaledMult1_k E alpha (nat k) x t c)) s"

definition Jacobi_EvalMult ::
  "env \<Rightarrow> int \<Rightarrow> int \<Rightarrow> AutoDiffDiff \<Rightarrow> AutoDiffDiff
     \<Rightarrow> (nat \<Rightarrow> AutoDiffDiff \<Rightarrow> 's \<Rightarrow> 's) \<Rightarrow> 's \<Rightarrow> 's" where
  "Jacobi_EvalMult E alpha n x c cb s =
     for_le 0 n (\<lambda>k. cb (nat k) (JacobiMult_k E alpha (nat k) x c)) s"

subsection \<open>The element \<^verbatim>\<open>T_HCurlDivFE<ET>\<close>\<close>

text \<open>
  The data members of \<^verbatim>\<open>T_HCurlDivFE\<close> and of its bases: \<^verbatim>\<open>vnums\<close> of
  \<^verbatim>\<open>VertexOrientedFE\<close>, \<^verbatim>\<open>ndof\<close> and \<^verbatim>\<open>order\<close> of \<^verbatim>\<open>FiniteElement\<close>. The member
  \<^verbatim>\<open>plus\<close> is called \<open>plus_flag\<close>.
\<close>

record HCurlDivFE =
  vnums :: "int list"
  order_facet :: "int list"
  order_inner :: int
  plus_flag :: bool
  ndof :: int
  order :: int

text \<open>The rows the callback has received, and the counter \<^verbatim>\<open>ii\<close>.\<close>

type_synonym rows = "(int \<times> shapefn option) list"

text \<open>\<^verbatim>\<open>shape[ii++] = val\<close>\<close>

definition emit :: "shapefn option \<Rightarrow> int \<times> rows \<Rightarrow> int \<times> rows" where
  "emit val s = (fst s + 1, snd s @ [(fst s, val)])"

text \<open>A block made from two array entries.\<close>

definition block2 ::
  "(AutoDiffDiff \<Rightarrow> AutoDiffDiff \<Rightarrow> shapefn) \<Rightarrow> AutoDiffDiff option \<Rightarrow> AutoDiffDiff option
     \<Rightarrow> shapefn option" where
  "block2 f a b = (case a of None \<Rightarrow> None | Some x \<Rightarrow> map_option (f x) b)"

subsection \<open>The triangle, \<^verbatim>\<open>HCurlDivFE<ET_TRIG>\<close>\<close>

definition ComputeNDof_TRIG :: "HCurlDivFE \<Rightarrow> HCurlDivFE" where
  "ComputeNDof_TRIG fe0 =
     (let fe = fe0\<lparr>order := 0\<rparr>;
          fe = fe\<lparr>ndof := 0\<rparr>;
          fe = for_le 0 2
                 (\<lambda>i fe.
                    let fe = fe\<lparr>ndof := ndof fe + (order_facet fe ! nat i + 1)\<rparr>
                    in fe\<lparr>order := max (order fe) (order_facet fe ! nat i)\<rparr>) fe;
          ninner = order_inner fe + 1 + 2 * ((order_inner fe + 1) * order_inner fe);
          fe = fe\<lparr>order := max (order fe) (order_inner fe)\<rparr>;
          (fe, ninner) =
            (if plus_flag fe
             then (fe\<lparr>order := order fe + 1\<rparr>, ninner + 2 * order_inner fe)
             else (fe, ninner))
      in fe\<lparr>ndof := ndof fe + ninner\<rparr>)"

text \<open>
  The two families of interior functions over the index pairs \<open>i + j \<le> oi - 1\<close>; the
  source has this double loop twice.
\<close>

definition inner_pairs ::
  "int \<Rightarrow> AutoDiffDiff list \<Rightarrow> AutoDiffDiff list \<Rightarrow> int \<times> rows \<Rightarrow> int \<times> rows" where
  "inner_pairs oi u v s =
     for_le 0 (oi - 1)
       (\<lambda>i. for_le 0 (oi - 1 - i)
          (\<lambda>j s.
             let s = emit (block2 Sigma_gradu_v (aread u i) (aread v j)) s
             in emit (block2 Curlgraduv_graducurlv (aread u i) (aread v j)) s)) s"

text \<open>
  The edge loop of \<^verbatim>\<open>T_CalcShape\<close>. The state of the loop is the array \<^verbatim>\<open>ha\<close> and the
  rows; \<open>maxorder_facet\<close> is passed in as the source computes it before the loop.
\<close>

definition trig_edges_loop ::
  "env \<Rightarrow> HCurlDivFE \<Rightarrow> AutoDiffDiff list \<Rightarrow> int \<Rightarrow> int \<times> rows
     \<Rightarrow> AutoDiffDiff list \<times> int \<times> rows" where
  "trig_edges_loop E fe ddlami maxorder_facet s =
     for_le 0 2
       (\<lambda>i (ha, s).
          let es = fst (GetEdges_TRIG E ! nat i); ee = snd (GetEdges_TRIG E ! nat i);
              (es, ee) = (if vnums fe ! es > vnums fe ! ee then (ee, es) else (es, ee));
              ls = ddlami ! es; le = ddlami ! ee;
              ha = ScaledLegendrePolynomial E maxorder_facet
                     (ad_minus le ls) (ad_plus le ls) ha
          in (ha,
              for_le 0 (order_facet fe ! nat i)
                (\<lambda>l. emit (map_option (\<lambda>h. Sigma_gradv (ad_times (ad_times le ls) h))
                              (aread ha l))) s))
       ([], s)"

definition T_CalcShape_TRIG ::
  "env \<Rightarrow> HCurlDivFE \<Rightarrow> AutoDiffDiff list \<Rightarrow> exn + int \<times> rows" where
  "T_CalcShape_TRIG E fe ip =
     (let x = ip ! 0; y = ip ! 1;
          ddlami = [x, y, ad_minus (c_minus 1 x) y];
          s = (0, []);
          maxorder_facet =
            max (order_facet fe ! 0) (max (order_facet fe ! 1) (order_facet fe ! 2));
          (ha, s) = trig_edges_loop E fe ddlami maxorder_facet s;
          ls = ddlami ! 0; le = ddlami ! 1; lt = ddlami ! 2;
          oi = order_inner fe;
          u = CalcTrigExt E (oi + 3) (ad_minus le lt) (ad_minus (c_minus 1 le) lt) [];
          v = Legendre_EvalMult E (oi + 1) (minus_c (c_times 2 ls) 1) ls [];
          s = inner_pairs oi u v s;
          u = CalcTrigExt E (oi + 3) (ad_minus le ls) (ad_minus (c_minus 1 le) ls) u;
          v = Legendre_EvalMult E (oi + 1) (minus_c (c_times 2 lt) 1) lt v;
          s = inner_pairs oi u v s;
          v = Legendre_Eval E oi (minus_c (c_times 2 lt) 1) v;
          s = for_le 0 oi (\<lambda>i. emit (map_option (T_type4 le ls) (aread v i))) s;
          u = CalcTrigExt E (oi + 3) (ad_minus le ls) (ad_minus (c_minus 1 le) ls) u;
          v = Legendre_EvalMult E (oi + 1) (minus_c (c_times 2 lt) 1) lt v
      in if plus_flag fe
         then for_le_exn 0 (oi - 1) (\<lambda>i s. Inl (Exception ''not working yet!'')) s
         else Inr s)"

subsection \<open>The \<^verbatim>\<open>double\<close> arithmetic that decides an integer\<close>

text \<open>
  The tetrahedron computes its interior count and a loop bound in \<^verbatim>\<open>double\<close>. \<open>fl\<close>
  rounds a rational to the nearest number with a 53-bit significand, ties to even, as
  IEEE binary64 does (overflow and subnormal numbers left out: the values here are
  small integers and fractions of them). A positive \<open>q\<close> lies in a binade
  \<open>2^e \<le> q < 2^(e+1)\<close> whose numbers are the multiples of \<open>ulp q = 2^(e-52)\<close>.
\<close>

definition round_to_even :: "rat \<Rightarrow> int" where
  "round_to_even q =
     (let f = \<lfloor>q\<rfloor>; r = q - of_int f
      in if r < 1 / 2 then f else if 1 / 2 < r then f + 1 else if even f then f else f + 1)"

definition ulp :: "rat \<Rightarrow> rat" where
  "ulp q =
     (if 1 \<le> q then 2 ^ (floorlog 2 (nat \<lfloor>q\<rfloor>) - 1) / 2 ^ 52
      else 1 / (2 ^ floorlog 2 (nat (\<lceil>1 / q\<rceil> - 1)) * 2 ^ 52))"

definition fl :: "rat \<Rightarrow> rat" where
  "fl q =
     (if q = 0 then 0
      else if 0 < q then of_int (round_to_even (q / ulp q)) * ulp q
      else - (of_int (round_to_even (- q / ulp (- q))) * ulp (- q)))"

definition dadd :: "rat \<Rightarrow> rat \<Rightarrow> rat" where
  "dadd a b = fl (a + b)"

definition dmul :: "rat \<Rightarrow> rat \<Rightarrow> rat" where
  "dmul a b = fl (a * b)"

definition ddiv :: "rat \<Rightarrow> rat \<Rightarrow> rat" where
  "ddiv a b = fl (a / b)"

text \<open>The conversions \<^verbatim>\<open>int\<close> to \<^verbatim>\<open>double\<close>, and \<^verbatim>\<open>double\<close> to \<^verbatim>\<open>int\<close> (towards zero).\<close>

definition int_to_double :: "int \<Rightarrow> rat" where
  "int_to_double n = fl (of_int n)"

definition double_to_int :: "rat \<Rightarrow> int" where
  "double_to_int q = (if 0 \<le> q then \<lfloor>q\<rfloor> else \<lceil>q\<rceil>)"

subsection \<open>The tetrahedron, \<^verbatim>\<open>HCurlDivFE<ET_TET>\<close>\<close>

text \<open>
  The initialiser of \<^verbatim>\<open>int ninner\<close>:
  \<^verbatim>\<open>(oi+1)*(oi+2)*(oi+3)/6.0 + 8.0/6.0 * ((oi+2)*(oi+1)*oi)\<close>, computed in \<^verbatim>\<open>double\<close> and
  converted to \<^verbatim>\<open>int\<close>.
\<close>

definition ninner_TET :: "int \<Rightarrow> int" where
  "ninner_TET oi =
     double_to_int
       (dadd (ddiv (int_to_double ((oi + 1) * (oi + 2) * (oi + 3))) 6)
             (dmul (ddiv 8 6) (int_to_double ((oi + 2) * (oi + 1) * oi))))"

definition ComputeNDof_TET :: "HCurlDivFE \<Rightarrow> HCurlDivFE" where
  "ComputeNDof_TET fe0 =
     (let fe = fe0\<lparr>order := 0\<rparr>;
          fe = fe\<lparr>ndof := 0\<rparr>;
          fe = for_le 0 3
                 (\<lambda>i fe.
                    let fe = fe\<lparr>ndof := ndof fe
                                  + (order_facet fe ! nat i + 1) * (order_facet fe ! nat i + 2)\<rparr>
                    in fe\<lparr>order := max (order fe) (order_facet fe ! nat i)\<rparr>) fe;
          ninner = ninner_TET (order_inner fe);
          fe = fe\<lparr>order := max (order fe) (order_inner fe)\<rparr>
      in fe\<lparr>ndof := ndof fe + ninner\<rparr>)"

text \<open>The eight functions \<^verbatim>\<open>T_CalcShape\<close> emits for one interior value of type 2.\<close>

definition emit_type2 ::
  "AutoDiffDiff \<Rightarrow> AutoDiffDiff \<Rightarrow> AutoDiffDiff \<Rightarrow> AutoDiffDiff \<Rightarrow> AutoDiffDiff
     \<Rightarrow> int \<times> rows \<Rightarrow> int \<times> rows" where
  "emit_type2 ls le lt lo val s =
     (let s = emit (Some (T_Dl1_o_Dl2xDl3_v le ls lt (ad_times lo val))) s;
          s = emit (Some (T_Dl1_o_Dl2xDl3_v ls lt le (ad_times lo val))) s;
          s = emit (Some (T_Dl1_o_Dl2xDl3_v le ls lo (ad_times lt val))) s;
          s = emit (Some (T_Dl1_o_Dl2xDl3_v ls lo le (ad_times lt val))) s;
          s = emit (Some (T_Dl1_o_Dl2xDl3_v le lo lt (ad_times ls val))) s;
          s = emit (Some (T_Dl1_o_Dl2xDl3_v lo lt le (ad_times ls val))) s;
          s = emit (Some (T_Dl1_o_Dl2xDl3_v lo ls lt (ad_times le val))) s
      in emit (Some (T_Dl1_o_Dl2xDl3_v lt ls lo (ad_times le val))) s)"

text \<open>
  The face loop of \<^verbatim>\<open>T_CalcShape\<close>. The state of the loop is the array \<^verbatim>\<open>ha\<close> and the
  rows; \<open>maxorder_facet\<close> is passed in as the source computes it before the loop.
\<close>

definition tet_faces_loop ::
  "env \<Rightarrow> HCurlDivFE \<Rightarrow> AutoDiffDiff list \<Rightarrow> int \<Rightarrow> int \<times> rows
     \<Rightarrow> AutoDiffDiff list \<times> int \<times> rows" where
  "tet_faces_loop E fe ddlami maxorder_facet s =
     for_le 0 3
       (\<lambda>fa (ha, s).
          let (f0, f1, f2) = GetFaces_TET E ! nat fa;
              p = order_facet fe ! nat fa;
              (f0, f1) = (if vnums fe ! f0 > vnums fe ! f1 then (f1, f0) else (f0, f1));
              (f1, f2) = (if vnums fe ! f1 > vnums fe ! f2 then (f2, f1) else (f1, f2));
              (f0, f1) = (if vnums fe ! f0 > vnums fe ! f1 then (f1, f0) else (f0, f1));
              ls = ddlami ! f0; le = ddlami ! f1; lt = ddlami ! f2;
              ha = DubinerBasis3_Eval E maxorder_facet ls le ha
          in (ha,
              for_lt 0
                (ddiv (int_to_double ((order_facet fe ! nat fa + 1)
                                       * (order_facet fe ! nat fa + 2))) 2)
                (\<lambda>l s.
                   let s = emit (map_option (T_Dl1_o_Dl2xDl3_v le ls lt) (aread ha l)) s
                   in emit (map_option (T_Dl1_o_Dl2xDl3_v ls lt le) (aread ha l)) s) s))
       ([], s)"

text \<open>
  The interior functions. \<^verbatim>\<open>jac1\<close> and \<^verbatim>\<open>jac2\<close> are objects whose \<open>alpha\<close> the
  callbacks increment (\<^verbatim>\<open>IncAlpha2\<close>), so the \<open>alpha\<close> is part of the state a callback
  transforms; \<^verbatim>\<open>jac1\<close> is shared by the two parts.
\<close>

definition tet_type1 ::
  "env \<Rightarrow> int \<Rightarrow> AutoDiffDiff \<Rightarrow> AutoDiffDiff \<Rightarrow> AutoDiffDiff \<Rightarrow> AutoDiffDiff
     \<Rightarrow> int \<times> int \<times> rows \<Rightarrow> int \<times> int \<times> rows" where
  "tet_type1 E oi ls le lt lo js =
     EvalScaled1Assign E oi (ad_minus lt lo) (ad_plus lt lo)
       (\<lambda>k polz (jac1, s).
          let jac2 = 2 * int k + 2;
              (jac2, s) =
                EvalScaledMult1Assign E jac1 (oi - int k)
                  (ad_minus (ad_minus le lt) lo) (c_minus 1 ls) polz
                  (\<lambda>j polsy (jac2, s).
                     let s = Jacobi_EvalMult E jac2 (oi - int k - int j)
                               (minus_c (c_times 2 ls) 1) polsy
                               (\<lambda>j val. emit (Some (T_Id_v 3 val))) s
                     in (jac2 + 2, s))
                  (jac2, s)
          in (jac1 + 2, s))
       js"

definition tet_type2 ::
  "env \<Rightarrow> int \<Rightarrow> AutoDiffDiff \<Rightarrow> AutoDiffDiff \<Rightarrow> AutoDiffDiff \<Rightarrow> AutoDiffDiff
     \<Rightarrow> int \<times> int \<times> rows \<Rightarrow> int \<times> int \<times> rows" where
  "tet_type2 E oi ls le lt lo js =
     EvalScaled1Assign E (oi - 1) (ad_minus lt lo) (ad_plus lt lo)
       (\<lambda>k polz (jac1, s).
          let jac2 = 2 * int k + 2;
              (jac2, s) =
                EvalScaledMult1Assign E jac1 (oi - 1 - int k)
                  (ad_minus (ad_minus le lt) lo) (c_minus 1 ls) polz
                  (\<lambda>j polsy (jac2, s).
                     let s = Jacobi_EvalMult E jac2 (oi - 1 - int k - int j)
                               (minus_c (c_times 2 ls) 1) polsy
                               (\<lambda>j val. emit_type2 ls le lt lo val) s
                     in (jac2 + 2, s))
                  (jac2, s)
          in (jac1 + 2, s))
       js"

definition T_CalcShape_TET ::
  "env \<Rightarrow> HCurlDivFE \<Rightarrow> AutoDiffDiff list \<Rightarrow> exn + int \<times> rows" where
  "T_CalcShape_TET E fe ip =
     (let x = ip ! 0; y = ip ! 1; z = ip ! 2;
          ddlami = [x, y, z, ad_minus (ad_minus (c_minus 1 x) y) z];
          s = (0, []);
          maxorder_facet =
            max (order_facet fe ! 0) (max (order_facet fe ! 1) (order_facet fe ! 2));
          (ha, s) = tet_faces_loop E fe ddlami maxorder_facet s;
          oi = order_inner fe;
          ls = ddlami ! 0; le = ddlami ! 1; lt = ddlami ! 2; lo = ddlami ! 3;
          jac1 = 1;
          (jac1, s) = tet_type1 E oi ls le lt lo (jac1, s);
          (jac1, s) = tet_type2 E oi ls le lt lo (jac1, s)
      in Inr s)"

subsection \<open>The evaluation entry points of \<^verbatim>\<open>T_HCurlDivFE<ET>\<close>\<close>

text \<open>The two element kinds \<^verbatim>\<open>HCurlDivFE\<close> is specialised for.\<close>

datatype ELEMENT_TYPE = ET_TRIG | ET_TET

fun DIM :: "ELEMENT_TYPE \<Rightarrow> nat" where
  "DIM ET_TRIG = 2"
| "DIM ET_TET = 3"


fun ComputeNDof :: "ELEMENT_TYPE \<Rightarrow> HCurlDivFE \<Rightarrow> HCurlDivFE" where
  "ComputeNDof ET_TRIG fe = ComputeNDof_TRIG fe"
| "ComputeNDof ET_TET fe = ComputeNDof_TET fe"

text \<open>\<^verbatim>\<open>Cast() -> T_CalcShape (...)\<close>\<close>

fun T_CalcShape ::
  "env \<Rightarrow> ELEMENT_TYPE \<Rightarrow> HCurlDivFE \<Rightarrow> AutoDiffDiff list \<Rightarrow> exn + int \<times> rows" where
  "T_CalcShape E ET_TRIG fe ip = T_CalcShape_TRIG E fe ip"
| "T_CalcShape E ET_TET fe ip = T_CalcShape_TET E fe ip"

text \<open>
  The callbacks of the entry points write one row of the caller's matrix per call. The
  result of an entry point is the list of these writes (row number, entries written),
  or the exception. A row built from an array entry outside the evaluated range holds
  no defined numbers (\<open>None\<close>).
\<close>

type_synonym matrix_writes = "(int \<times> real list option) list"

definition write_rows :: "(shapefn \<Rightarrow> real list) \<Rightarrow> exn + int \<times> rows \<Rightarrow> exn + matrix_writes" where
  "write_rows f r =
     (case r of
        Inl e \<Rightarrow> Inl e
      | Inr s \<Rightarrow> Inr (map (\<lambda>(nr, val). (nr, map_option f val)) (snd s)))"

definition CalcShape :: "env \<Rightarrow> ELEMENT_TYPE \<Rightarrow> HCurlDivFE \<Rightarrow> real list \<Rightarrow> exn + matrix_writes" where
  "CalcShape E et fe ip =
     (let adp = map (\<lambda>i. ad_var (DIM et) (ip ! i) i) [0..<DIM et]
      in write_rows Shape (T_CalcShape E et fe adp))"

definition CalcDivShape :: "env \<Rightarrow> ELEMENT_TYPE \<Rightarrow> HCurlDivFE \<Rightarrow> real list \<Rightarrow> exn + matrix_writes" where
  "CalcDivShape E et fe ip =
     (let adp = map (\<lambda>i. ad_var (DIM et) (ip ! i) i) [0..<DIM et]
      in write_rows DivShape (T_CalcShape E et fe adp))"







subsection \<open>The unspecialised \<^verbatim>\<open>ComputeNDof\<close>\<close>

text \<open>
  \<^verbatim>\<open>T_HCurlDivFE<ET>::ComputeNDof\<close> and \<^verbatim>\<open>T_HCurlDivSurfaceFE<ET>::ComputeNDof\<close> consist of
  one output statement on \<^verbatim>\<open>cout\<close>. The state is the element and the lines written
  to \<^verbatim>\<open>cout\<close> so far.
\<close>

record HCurlDivSurfaceFE =
  surf_vnums :: "int list"
  surf_order_inner :: int
  surf_ndof :: int
  surf_order :: int

definition T_HCurlDivFE_ComputeNDof ::
  "HCurlDivFE \<times> string list \<Rightarrow> exn + HCurlDivFE \<times> string list" where
  "T_HCurlDivFE_ComputeNDof s =
     Inr (fst s,
          snd s @ [''Error, T_HCurlDivFE<ET>:: ComputeNDof not available, only for ET == TRIG''])"

definition T_HCurlDivSurfaceFE_ComputeNDof ::
  "HCurlDivSurfaceFE \<times> string list \<Rightarrow> exn + HCurlDivSurfaceFE \<times> string list" where
  "T_HCurlDivSurfaceFE_ComputeNDof s =
     Inr (fst s,
          snd s @ [''Error, T_HCurlDivSurfaceFE<ET>:: ComputeNDof not available for base class''])"

subsection \<open>Polynomial input fields\<close>

text \<open>
  The input fields of a building block are polynomials in the two coordinates. A field is
  given by an expression; \<open>peval\<close> is its value at a point, \<open>pdx\<close> and \<open>pdy\<close> are its
  partial derivatives. \<open>ad_field p x y\<close> is the \<^verbatim>\<open>AutoDiffDiff<2>\<close> the element passes to a
  building block for the field \<open>p\<close> at the point \<open>(x, y)\<close>: the expression evaluated in
  the differentiable scalars, at the two coordinates \<^verbatim>\<open>AutoDiffDiff<2>(x, 0)\<close> and
  \<^verbatim>\<open>AutoDiffDiff<2>(y, 1)\<close>.
\<close>

datatype poly2 = PX | PY | PConst real | PAdd poly2 poly2 | PMul poly2 poly2

fun peval :: "poly2 \<Rightarrow> real \<Rightarrow> real \<Rightarrow> real" where
  "peval PX x y = x"
| "peval PY x y = y"
| "peval (PConst c) x y = c"
| "peval (PAdd p q) x y = peval p x y + peval q x y"
| "peval (PMul p q) x y = peval p x y * peval q x y"

fun pdx :: "poly2 \<Rightarrow> poly2" where
  "pdx PX = PConst 1"
| "pdx PY = PConst 0"
| "pdx (PConst c) = PConst 0"
| "pdx (PAdd p q) = PAdd (pdx p) (pdx q)"
| "pdx (PMul p q) = PAdd (PMul (pdx p) q) (PMul p (pdx q))"

fun pdy :: "poly2 \<Rightarrow> poly2" where
  "pdy PX = PConst 0"
| "pdy PY = PConst 1"
| "pdy (PConst c) = PConst 0"
| "pdy (PAdd p q) = PAdd (pdy p) (pdy q)"
| "pdy (PMul p q) = PAdd (PMul (pdy p) q) (PMul p (pdy q))"

fun ad_eval :: "poly2 \<Rightarrow> AutoDiffDiff \<Rightarrow> AutoDiffDiff \<Rightarrow> AutoDiffDiff" where
  "ad_eval PX X Y = X"
| "ad_eval PY X Y = Y"
| "ad_eval (PConst c) X Y = ad_const 2 c"
| "ad_eval (PAdd p q) X Y = ad_plus (ad_eval p X Y) (ad_eval q X Y)"
| "ad_eval (PMul p q) X Y = ad_times (ad_eval p X Y) (ad_eval q X Y)"

definition ad_field :: "poly2 \<Rightarrow> real \<Rightarrow> real \<Rightarrow> AutoDiffDiff" where
  "ad_field p x y = ad_eval p (ad_var 2 x 0) (ad_var 2 y 1)"

text \<open>
  \<open>row_divergence S x y d\<close>: the vector \<open>d\<close> is the row-wise divergence at \<open>(x, y)\<close> of the
  field \<open>S\<close> of 2 by 2 tensors, stored row by row: \<open>d\<close> has the entries
  \<open>\<partial>S\<^sub>0/\<partial>x + \<partial>S\<^sub>1/\<partial>y\<close> and \<open>\<partial>S\<^sub>2/\<partial>x + \<partial>S\<^sub>3/\<partial>y\<close>.
\<close>

definition row_divergence :: "(real \<Rightarrow> real \<Rightarrow> real list) \<Rightarrow> real \<Rightarrow> real \<Rightarrow> real list \<Rightarrow> bool" where
  "row_divergence S x y d \<longleftrightarrow>
     (\<exists>a b c e.
        ((\<lambda>t. S t y ! 0) has_field_derivative a) (at x)
      \<and> ((\<lambda>t. S x t ! 1) has_field_derivative b) (at y)
      \<and> ((\<lambda>t. S t y ! 2) has_field_derivative c) (at x)
      \<and> ((\<lambda>t. S x t ! 3) has_field_derivative e) (at y)
      \<and> d = [a + b, c + e])"

subsection \<open>Concrete inputs\<close>

text \<open>
  An instance of the external collaborators, to run the model on: vertex tables of the
  edges of a triangle and of the faces of a tetrahedron, and, standing in for every
  polynomial family, the monomials \<open>x^k\<close> (times the factor \<open>c\<close> where the evaluator
  takes one). The general statements below hold for every instance.
\<close>

fun ad_pow :: "AutoDiffDiff \<Rightarrow> nat \<Rightarrow> AutoDiffDiff" where
  "ad_pow x 0 = ad_const (length (DValues x)) 1"
| "ad_pow x (Suc k) = ad_times x (ad_pow x k)"

definition example_env :: env where
  "example_env =
     \<lparr>GetEdges_TRIG = [(2, 0), (1, 2), (0, 1)],
      GetFaces_TET = [(3, 1, 2), (3, 2, 0), (3, 0, 1), (0, 2, 1)],
      ScaledLegendre_k = (\<lambda>k x t. ad_pow x k),
      TrigExt_k = (\<lambda>k x y. ad_pow x (k + 2)),
      Legendre_k = (\<lambda>k x. ad_pow x k),
      LegendreMult_k = (\<lambda>k x c. ad_times c (ad_pow x k)),
      Dubiner_k = (\<lambda>k x y. ad_times (ad_pow x k) y),
      LegendreScaled1_k = (\<lambda>k x t. ad_pow x k),
      JacobiScaledMult1_k = (\<lambda>alpha k x t c. ad_times c (ad_pow x k)),
      JacobiMult_k = (\<lambda>alpha k x c. ad_times c (ad_pow x k))\<rparr>"

text \<open>
  An element with the given vertex numbers, facet orders, interior order and \<^verbatim>\<open>plus\<close>;
  \<^verbatim>\<open>ndof\<close> and \<^verbatim>\<open>order\<close> are what \<^verbatim>\<open>ComputeNDof\<close> overwrites.
\<close>

definition make_fe :: "int list \<Rightarrow> int list \<Rightarrow> int \<Rightarrow> bool \<Rightarrow> HCurlDivFE" where
  "make_fe vn ofs oi pl =
     \<lparr>vnums = vn, order_facet = ofs, order_inner = oi, plus_flag = pl, ndof = 0, order = 0\<rparr>"


text \<open>The centroids of the reference triangle and tetrahedron, as \<^verbatim>\<open>T_CalcShape\<close> gets them.\<close>

definition centroid2 :: "AutoDiffDiff list" where
  "centroid2 = [ad_var 2 (1 / 3) 0, ad_var 2 (1 / 3) 1]"

definition centroid3 :: "AutoDiffDiff list" where
  "centroid3 = [ad_var 3 (1 / 4) 0, ad_var 3 (1 / 4) 1, ad_var 3 (1 / 4) 2]"

subsection \<open>Notions used in the statements\<close>

text \<open>
  The rows written so far are numbered when the counter \<^verbatim>\<open>ii\<close> is not negative and the
  rows carry the numbers \<open>0, 1, ..., ii - 1\<close> in this order: every row number below
  \<^verbatim>\<open>ii\<close> has been written exactly once.
\<close>

definition numbered :: "int \<times> rows \<Rightarrow> bool" where
  "numbered s \<longleftrightarrow> 0 \<le> fst s \<and> map fst (snd s) = [0..fst s - 1]"

text \<open>
  The number of index pairs \<open>(j, i)\<close> that the two inner callbacks of the tetrahedron
  visit for an outer index: \<open>j = 0..m\<close>, and for each of them \<open>i = 0..m - j\<close>.
\<close>

definition tri :: "int \<Rightarrow> int" where
  "tri m = (\<Sum>j = 0..m. int (nat (m - int (nat j) + 1)))"

text \<open>The number of rows the face loop of the tetrahedron writes for a face of order \<open>p\<close>.\<close>

definition face_count :: "int \<Rightarrow> int" where
  "face_count p = 2 * int (nat \<lceil>ddiv (int_to_double ((p + 1) * (p + 2))) 2\<rceil>)"

section \<open>Properties\<close>

subsection \<open>Loops and sums\<close>

lemma for_le_stop: "n < i \<Longrightarrow> for_le i n body s = s"
  by (simp add: for_le.simps)

lemma for_le_step: "i \<le> n \<Longrightarrow> for_le i n body s = for_le (i + 1) n body (body i s)"
  by (subst for_le.simps) simp

lemma for_le_inv:
  assumes "P s" and "\<And>i s. P s \<Longrightarrow> P (body i s)"
  shows "P (for_le i n body s)"
  using assms
proof (induction i n body s rule: for_le.induct)
  case (1 i n body s)
  show ?case
  proof (cases "i \<le> n")
    case True
    then show ?thesis using 1 by (simp add: for_le_step)
  next
    case False
    then show ?thesis using 1 by (simp add: for_le_stop)
  qed
qed

lemma sum_int_lower: "i \<le> n \<Longrightarrow> (\<Sum>k = i..n. c k) = c i + (\<Sum>k = i + 1..n. c k)"
  for i n :: int and c :: "int \<Rightarrow> int"
proof -
  assume "i \<le> n"
  then have "{i..n} = insert i {i + 1..n}" by auto
  then show ?thesis by simp
qed

lemma for_le_count:
  fixes m :: "'s \<Rightarrow> int"
  assumes "\<And>i s. m (body i s) = m s + c i"
  shows "m (for_le i n body s) = m s + (\<Sum>k = i..n. c k)"
  using assms
proof (induction i n body s rule: for_le.induct)
  case (1 i n body s)
  show ?case
  proof (cases "i \<le> n")
    case True
    then show ?thesis using 1 by (simp add: for_le_step sum_int_lower)
  next
    case False
    then show ?thesis by (simp add: for_le_stop)
  qed
qed

lemma for_lt_stop: "\<not> of_int l < b \<Longrightarrow> for_lt l b body s = s"
  by (simp add: for_lt.simps)

lemma for_lt_step: "of_int l < b \<Longrightarrow> for_lt l b body s = for_lt (l + 1) b body (body l s)"
  by (subst for_lt.simps) simp

lemma sum_pairs_from: "i \<le> n \<Longrightarrow> (\<Sum>k = i..n - 1. 2 * int (nat (n - k))) = (n - i) * (n - i + 1)" for n :: int
proof (induction i rule: int_le_induct)
  case base
  then show ?case by simp
next
  case (step i)
  have "(\<Sum>k = i - 1..n - 1. 2 * int (nat (n - k))) = 2 * int (nat (n - (i - 1))) + (\<Sum>k = i - 1 + 1..n - 1. 2 * int (nat (n - k)))"
    using step.hyps by (intro sum_int_lower) simp
  then show ?case using step by (simp add: algebra_simps)
qed

lemma sum_pairs: "0 \<le> n \<Longrightarrow> (\<Sum>i = 0..n - 1. 2 * int (nat (n - i))) = n * (n + 1)" for n :: int
  using sum_pairs_from[of 0 n] by simp

lemma for_lt_ceiling: "for_lt l b body s = for_le l (\<lceil>b\<rceil> - 1) body s"
proof (induction l "\<lceil>b\<rceil> - 1" body s rule: for_le.induct)
  case (1 i body s)
  show ?case
  proof (cases "i \<le> \<lceil>b\<rceil> - 1")
    case True
    then have "of_int i < b" by (simp add: less_ceiling_iff)
    then show ?thesis using True 1 by (simp add: for_lt_step for_le_step)
  next
    case False
    then have "\<not> of_int i < b" by (simp add: less_ceiling_iff)
    then show ?thesis using False by (simp add: for_lt_stop for_le_stop)
  qed
qed

lemma sum_tri_from:
  fixes m :: int
  assumes "i \<le> m + 1"
  shows "0 \<le> i \<longrightarrow> 2 * (\<Sum>j = i..m. int (nat (m - int (nat j) + 1))) = (m - i + 1) * (m - i + 2)"
  using assms
proof (induction i rule: int_le_induct)
  case base
  then show ?case by simp
next
  case (step i)
  have "(\<Sum>j = i - 1..m. int (nat (m - int (nat j) + 1)))
      = int (nat (m - int (nat (i - 1)) + 1)) + (\<Sum>j = i - 1 + 1..m. int (nat (m - int (nat j) + 1)))"
    using step.hyps by (intro sum_int_lower) simp
  then show ?case using step by (auto simp: algebra_simps)
qed

lemma sum_tri: "- 1 \<le> m \<Longrightarrow> 2 * (\<Sum>j = 0..m. int (nat (m - int (nat j) + 1))) = (m + 1) * (m + 2)" for m :: int
  using sum_tri_from[of 0 m] by simp

lemma tri_closed: "- 1 \<le> m \<Longrightarrow> 2 * tri m = (m + 1) * (m + 2)"
  unfolding tri_def by (rule sum_tri)

lemma sum_tet_from:
  fixes n :: int
  assumes "i \<le> n + 1"
  shows "0 \<le> i \<longrightarrow> 6 * (\<Sum>k = i..n. tri (n - int (nat k))) = (n - i + 1) * (n - i + 2) * (n - i + 3)"
  using assms
proof (induction i rule: int_le_induct)
  case base
  then show ?case by simp
next
  case (step i)
  show ?case
  proof
    assume nonneg: "0 \<le> i - 1"
    have "(\<Sum>k = i - 1..n. tri (n - int (nat k)))
        = tri (n - int (nat (i - 1))) + (\<Sum>k = i - 1 + 1..n. tri (n - int (nat k)))"
      using step.hyps by (intro sum_int_lower) simp
    moreover have "2 * tri (n - (i - 1)) = (n - (i - 1) + 1) * (n - (i - 1) + 2)"
      using step.hyps by (intro tri_closed) simp
    moreover have "6 * (\<Sum>k = i..n. tri (n - int (nat k))) = (n - i + 1) * (n - i + 2) * (n - i + 3)"
      using step.IH nonneg by simp
    ultimately show "6 * (\<Sum>k = i - 1..n. tri (n - int (nat k))) = (n - (i - 1) + 1) * (n - (i - 1) + 2) * (n - (i - 1) + 3)"
      using nonneg by (simp add: algebra_simps)
  qed
qed

lemma sum_tet: "- 1 \<le> n \<Longrightarrow> 6 * (\<Sum>k = 0..n. tri (n - int (nat k))) = (n + 1) * (n + 2) * (n + 3)" for n :: int
  using sum_tet_from[of 0 n] by simp

subsection \<open>The rows of the triangle\<close>

lemma fst_emit: "fst (emit v s) = fst s + 1"
  by (simp add: emit_def)

lemma numbered_emit: "numbered s \<Longrightarrow> numbered (emit v s)"
  by (simp add: numbered_def emit_def upto_rec2)

lemma numbered_init: "numbered (0, [])"
  by (simp add: numbered_def)

lemma sum_0_2: "(\<Sum>k = 0..2. c k) = c 0 + c 1 + c (2::int)" for c :: "int \<Rightarrow> int"
  by (simp add: sum_int_lower)

lemma fst_inner_pairs: "fst (inner_pairs oi u v s) = fst s + (\<Sum>i = 0..oi - 1. 2 * int (nat (oi - i)))"
  unfolding inner_pairs_def
  by (rule for_le_count[where m = fst]) (simp add: for_le_count[where m = fst and c = "\<lambda>_. 2"] fst_emit Let_def)

lemma numbered_inner_pairs: "numbered s \<Longrightarrow> numbered (inner_pairs oi u v s)"
  unfolding inner_pairs_def
  apply (rule for_le_inv[where P = numbered], assumption)
  apply (rule for_le_inv[where P = numbered], assumption)
  apply (simp add: Let_def numbered_emit)
  done

lemma fst_trig_edges_loop:
  "fst (snd (trig_edges_loop E fe dd mo s)) = fst s + (\<Sum>i = 0..2. int (nat (order_facet fe ! nat i + 1)))"
  unfolding trig_edges_loop_def
  by (subst for_le_count[where m = "\<lambda>hs. fst (snd hs)" and c = "\<lambda>i. int (nat (order_facet fe ! nat i + 1))"])
     (simp_all add: Let_def split_beta for_le_count[where m = fst and c = "\<lambda>_. 1"] fst_emit)

lemma numbered_trig_edges_loop:
  assumes "numbered s"
  shows "numbered (snd (trig_edges_loop E fe dd mo s))"
proof -
  have "(numbered \<circ> snd) (trig_edges_loop E fe dd mo s)"
    unfolding trig_edges_loop_def
  proof (rule for_le_inv[where P = "numbered \<circ> snd"])
    show "(numbered \<circ> snd) ([], s)" using assms by simp
  next
    fix i and hs :: "AutoDiffDiff list \<times> int \<times> rows"
    assume "(numbered \<circ> snd) hs"
    then have "numbered (snd hs)" by simp
    then have "numbered (for_le 0 n (\<lambda>l. emit (f l)) (snd hs))" for n f
      by (rule for_le_inv[where P = numbered]) (rule numbered_emit)
    then show "(numbered \<circ> snd) ((\<lambda>(ha, s).
          let es = fst (GetEdges_TRIG E ! nat i); ee = snd (GetEdges_TRIG E ! nat i);
              (es, ee) = (if vnums fe ! es > vnums fe ! ee then (ee, es) else (es, ee));
              ls = dd ! es; le = dd ! ee;
              ha = ScaledLegendrePolynomial E mo
                     (ad_minus le ls) (ad_plus le ls) ha
          in (ha,
              for_le 0 (order_facet fe ! nat i)
                (\<lambda>l. emit (map_option (\<lambda>h. Sigma_gradv (ad_times (ad_times le ls) h))
                              (aread ha l))) s)) hs)"
      by (simp add: Let_def split_beta)
  qed
  then show ?thesis by simp
qed

lemma T_CalcShape_TRIG_shape:
  "\<exists>S. numbered S
     \<and> fst S = (\<Sum>i = 0..2. int (nat (order_facet fe ! nat i + 1)))
               + 2 * (\<Sum>i = 0..order_inner fe - 1. 2 * int (nat (order_inner fe - i)))
               + int (nat (order_inner fe + 1))
     \<and> T_CalcShape_TRIG E fe ip =
        (if plus_flag fe
         then for_le_exn 0 (order_inner fe - 1) (\<lambda>i s. Inl (Exception ''not working yet!'')) S
         else Inr S)"
  unfolding T_CalcShape_TRIG_def Let_def split_beta
  apply (rule exI, intro conjI)
    prefer 3
    apply (rule refl)
   apply (rule for_le_inv[where P = numbered])
    apply (intro numbered_inner_pairs numbered_trig_edges_loop numbered_init)
   apply (erule numbered_emit)
  apply (simp add: for_le_count[where m = fst and c = "\<lambda>_. 1"] fst_emit fst_inner_pairs fst_trig_edges_loop)
  done

subsection \<open>The rows of the tetrahedron\<close>

lemma fst_emit_type2: "fst (emit_type2 ls le lt lo val s) = fst s + 8"
  by (simp add: emit_type2_def Let_def fst_emit)

lemma numbered_emit_type2: "numbered s \<Longrightarrow> numbered (emit_type2 ls le lt lo val s)"
  by (simp add: emit_type2_def Let_def numbered_emit)

lemma fst_tet_faces_loop:
  "fst (snd (tet_faces_loop E fe dd mo s)) = fst s + (\<Sum>fa = 0..3. face_count (order_facet fe ! nat fa))"
  unfolding tet_faces_loop_def face_count_def
  by (subst for_le_count[where m = "\<lambda>hs. fst (snd hs)"
        and c = "\<lambda>fa. 2 * int (nat \<lceil>ddiv (int_to_double ((order_facet fe ! nat fa + 1) * (order_facet fe ! nat fa + 2))) 2\<rceil>)"])
     (simp_all add: Let_def split_beta for_lt_ceiling for_le_count[where m = fst and c = "\<lambda>_. 2"] fst_emit)

lemma numbered_tet_faces_loop:
  assumes "numbered s"
  shows "numbered (snd (tet_faces_loop E fe dd mo s))"
proof -
  have body: "numbered s \<Longrightarrow> numbered (for_lt 0 b (\<lambda>l s. emit (g l) (emit (f l) s)) s)"
    for s b f g
    unfolding for_lt_ceiling
    by (rule for_le_inv[where P = numbered]) (simp_all add: numbered_emit)
  have "(\<lambda>hs. numbered (snd hs)) (tet_faces_loop E fe dd mo s)"
    unfolding tet_faces_loop_def
    apply (rule for_le_inv[where P = "\<lambda>hs. numbered (snd hs)"])
     apply (simp add: assms)
    apply (simp only: Let_def split_beta snd_conv)
    apply (erule body)
    done
  then show ?thesis .
qed

lemma fst_Jacobi_EvalMult:
  assumes "\<And>j val s. fst (cb j val s) = fst s + c"
  shows "fst (Jacobi_EvalMult E a n x y cb s) = fst s + c * int (nat (n + 1))"
  unfolding Jacobi_EvalMult_def
  by (subst for_le_count[where m = fst and c = "\<lambda>_. c"]) (simp_all add: assms)

lemma numbered_Jacobi_EvalMult:
  assumes "numbered s" "\<And>j val s. numbered s \<Longrightarrow> numbered (cb j val s)"
  shows "numbered (Jacobi_EvalMult E a n x y cb s)"
  unfolding Jacobi_EvalMult_def
  by (rule for_le_inv[where P = numbered]) (simp_all add: assms)

lemma fst_tet_type1:
  "fst (snd (tet_type1 E oi ls le lt lo js)) = fst (snd js) + (\<Sum>k = 0..oi. tri (oi - int (nat k)))"
  unfolding tet_type1_def EvalScaled1Assign_def EvalScaledMult1Assign_def tri_def
  by (subst for_le_count[where m = "\<lambda>js. fst (snd js)"
        and c = "\<lambda>k. (\<Sum>j = 0..oi - int (nat k). int (nat (oi - int (nat k) - int (nat j) + 1)))"])
     (simp_all add: Let_def split_beta fst_emit
        for_le_count[where m = "\<lambda>js. fst (snd js)" and c = "\<lambda>j. int (nat (oi - int (nat k) - int (nat j) + 1))" for k]
        fst_Jacobi_EvalMult[where c = 1])

lemma fst_tet_type2:
  "fst (snd (tet_type2 E oi ls le lt lo js)) = fst (snd js) + 8 * (\<Sum>k = 0..oi - 1. tri (oi - 1 - int (nat k)))"
  unfolding tet_type2_def EvalScaled1Assign_def EvalScaledMult1Assign_def tri_def
  by (subst for_le_count[where m = "\<lambda>js. fst (snd js)"
        and c = "\<lambda>k. 8 * (\<Sum>j = 0..oi - 1 - int (nat k). int (nat (oi - 1 - int (nat k) - int (nat j) + 1)))"])
     (simp_all add: Let_def split_beta fst_emit_type2 sum_distrib_left
        for_le_count[where m = "\<lambda>js. fst (snd js)" and c = "\<lambda>j. 8 * int (nat (oi - 1 - int (nat k) - int (nat j) + 1))" for k]
        fst_Jacobi_EvalMult[where c = 8])

lemma numbered_tet_type1:
  assumes "numbered (snd js)"
  shows "numbered (snd (tet_type1 E oi ls le lt lo js))"
  unfolding tet_type1_def EvalScaled1Assign_def EvalScaledMult1Assign_def
  apply (rule for_le_inv[where P = "\<lambda>js. numbered (snd js)"])
   apply (rule assms)
  apply (simp only: Let_def split_beta snd_conv)
  apply (rule for_le_inv[where P = "\<lambda>js. numbered (snd js)"])
   apply (simp only: snd_conv)
  apply (simp only: Let_def split_beta snd_conv)
  apply (rule numbered_Jacobi_EvalMult)
   apply assumption
  apply (erule numbered_emit)
  done

lemma numbered_tet_type2:
  assumes "numbered (snd js)"
  shows "numbered (snd (tet_type2 E oi ls le lt lo js))"
  unfolding tet_type2_def EvalScaled1Assign_def EvalScaledMult1Assign_def
  apply (rule for_le_inv[where P = "\<lambda>js. numbered (snd js)"])
   apply (rule assms)
  apply (simp only: Let_def split_beta snd_conv)
  apply (rule for_le_inv[where P = "\<lambda>js. numbered (snd js)"])
   apply (simp only: snd_conv)
  apply (simp only: Let_def split_beta snd_conv)
  apply (rule numbered_Jacobi_EvalMult)
   apply assumption
  apply (erule numbered_emit_type2)
  done

lemma T_CalcShape_TET_shape:
  "\<exists>S. numbered S
     \<and> fst S = (\<Sum>fa = 0..3. face_count (order_facet fe ! nat fa))
               + (\<Sum>k = 0..order_inner fe. tri (order_inner fe - int (nat k)))
               + 8 * (\<Sum>k = 0..order_inner fe - 1. tri (order_inner fe - 1 - int (nat k)))
     \<and> T_CalcShape_TET E fe ip = Inr S"
  unfolding T_CalcShape_TET_def Let_def split_beta
  apply (rule exI, intro conjI)
    prefer 3
    apply (rule refl)
   apply (rule numbered_tet_type2)
   apply (simp only: snd_conv)
   apply (rule numbered_tet_type1)
   apply (simp only: snd_conv)
   apply (rule numbered_tet_faces_loop)
   apply (rule numbered_init)
  apply (simp add: fst_tet_type2 fst_tet_type1 fst_tet_faces_loop)
  done

subsection \<open>Degree-of-freedom counts\<close>

lemma ComputeNDof_TRIG_ndof:
  "ndof (ComputeNDof_TRIG fe) =
     (order_facet fe ! 0 + 1) + (order_facet fe ! 1 + 1) + (order_facet fe ! 2 + 1)
     + (order_inner fe + 1 + 2 * ((order_inner fe + 1) * order_inner fe))
     + (if plus_flag fe then 2 * order_inner fe else 0)"
  by (simp add: ComputeNDof_TRIG_def Let_def for_le_step for_le_stop)

lemma ComputeNDof_TRIG_order:
  "order (ComputeNDof_TRIG fe) =
     max (max (max (max 0 (order_facet fe ! 0)) (order_facet fe ! 1)) (order_facet fe ! 2))
       (order_inner fe)
     + (if plus_flag fe then 1 else 0)"
  by (simp add: ComputeNDof_TRIG_def Let_def for_le_step for_le_stop)

lemma write_rows_numbered:
  "numbered S \<Longrightarrow> \<exists>w. write_rows f (Inr S) = Inr w \<and> map fst w = [0..fst S - 1]"
  by (simp add: write_rows_def numbered_def split_beta comp_def)

lemma T_CalcShape_TRIG_no_plus:
  assumes "\<not> plus_flag fe" "0 \<le> order_inner fe"
    and "0 \<le> order_facet fe ! 0" "0 \<le> order_facet fe ! 1" "0 \<le> order_facet fe ! 2"
  shows "\<exists>S. T_CalcShape_TRIG E fe ip = Inr S \<and> numbered S \<and> fst S = ndof (ComputeNDof_TRIG fe)"
proof -
  obtain S where S: "numbered S"
    "fst S = (\<Sum>i = 0..2. int (nat (order_facet fe ! nat i + 1)))
               + 2 * (\<Sum>i = 0..order_inner fe - 1. 2 * int (nat (order_inner fe - i)))
               + int (nat (order_inner fe + 1))"
    "T_CalcShape_TRIG E fe ip = Inr S"
    using T_CalcShape_TRIG_shape[of fe E ip] assms(1) by auto
  have "(\<Sum>i = 0..order_inner fe - 1. 2 * int (nat (order_inner fe - i)))
          = order_inner fe * (order_inner fe + 1)"
    using assms(2) by (rule sum_pairs)
  moreover have "(\<Sum>i = 0..2. int (nat (order_facet fe ! nat i + 1)))
          = (order_facet fe ! 0 + 1) + (order_facet fe ! 1 + 1) + (order_facet fe ! 2 + 1)"
    using assms(3-5) by (simp add: sum_0_2)
  ultimately have "fst S = ndof (ComputeNDof_TRIG fe)"
    using assms(1,2) unfolding S(2) ComputeNDof_TRIG_ndof by (simp add: algebra_simps)
  then show ?thesis using S by blast
qed

lemma small_cases: "0 \<le> n \<Longrightarrow> n \<le> 6 \<Longrightarrow> n = 0 \<or> n = 1 \<or> n = 2 \<or> n = 3 \<or> n = 4 \<or> n = 5 \<or> n = 6" for n :: int
  by arith

lemma ninner_TET_values:
  "ninner_TET 0 = 1" "ninner_TET 1 = 12" "ninner_TET 2 = 42" "ninner_TET 3 = 100"
  "ninner_TET 4 = 195" "ninner_TET 5 = 336" "ninner_TET 6 = 532"
  by code_simp+

lemma ninner_TET_small:
  assumes "0 \<le> oi" "oi \<le> 6"
  shows "ninner_TET oi = (oi + 1) * (oi + 2) * (oi + 3) div 6 + 8 * ((oi + 2) * (oi + 1) * oi div 6)"
  using small_cases[OF assms] by (elim disjE) (simp_all add: ninner_TET_values)

lemma face_count_values:
  "face_count 0 = 2" "face_count 1 = 6" "face_count 2 = 12" "face_count 3 = 20"
  "face_count 4 = 30" "face_count 5 = 42" "face_count 6 = 56"
  by code_simp+

lemma face_count_small:
  assumes "0 \<le> p" "p \<le> 6"
  shows "face_count p = (p + 1) * (p + 2)"
  using small_cases[OF assms] by (elim disjE) (simp_all add: face_count_values)

lemma choose3_small:
  assumes "0 \<le> oi" "oi \<le> 6"
  shows "int ((nat oi + 3) choose 3) = (oi + 1) * (oi + 2) * (oi + 3) div 6"
  using small_cases[OF assms] by (elim disjE) (simp_all add: binomial_eq_0 eval_nat_numeral)

lemma sum_0_3: "(\<Sum>k = 0..3. c k) = c 0 + c 1 + c 2 + c (3::int)" for c :: "int \<Rightarrow> int"
  by (simp add: sum_int_lower)

lemma ComputeNDof_TET_ndof:
  "ndof (ComputeNDof_TET fe) =
     (order_facet fe ! 0 + 1) * (order_facet fe ! 0 + 2)
     + (order_facet fe ! 1 + 1) * (order_facet fe ! 1 + 2)
     + (order_facet fe ! 2 + 1) * (order_facet fe ! 2 + 2)
     + (order_facet fe ! 3 + 1) * (order_facet fe ! 3 + 2)
     + ninner_TET (order_inner fe)"
  by (simp add: ComputeNDof_TET_def ninner_TET_def Let_def for_le_step for_le_stop)

lemma ComputeNDof_TET_plus: "ndof (ComputeNDof_TET (fe\<lparr>plus_flag := b\<rparr>)) = ndof (ComputeNDof_TET fe)"
  by (simp add: ComputeNDof_TET_ndof)

lemma T_CalcShape_TET_plus: "T_CalcShape_TET E (fe\<lparr>plus_flag := b\<rparr>) ip = T_CalcShape_TET E fe ip"
  by (simp add: T_CalcShape_TET_def tet_faces_loop_def)

lemma T_CalcShape_TET_rows:
  assumes "0 \<le> order_inner fe" "order_inner fe \<le> 6"
    and "0 \<le> order_facet fe ! 0 \<and> order_facet fe ! 0 \<le> 6"
    and "0 \<le> order_facet fe ! 1 \<and> order_facet fe ! 1 \<le> 6"
    and "0 \<le> order_facet fe ! 2 \<and> order_facet fe ! 2 \<le> 6"
    and "0 \<le> order_facet fe ! 3 \<and> order_facet fe ! 3 \<le> 6"
  shows "\<exists>S. T_CalcShape_TET E fe ip = Inr S \<and> numbered S \<and> fst S = ndof (ComputeNDof_TET fe)"
proof -
  let ?oi = "order_inner fe"
  obtain S where S: "numbered S"
    "fst S = (\<Sum>fa = 0..3. face_count (order_facet fe ! nat fa))
               + (\<Sum>k = 0..?oi. tri (?oi - int (nat k)))
               + 8 * (\<Sum>k = 0..?oi - 1. tri (?oi - 1 - int (nat k)))"
    "T_CalcShape_TET E fe ip = Inr S"
    using T_CalcShape_TET_shape[of fe E ip] by auto
  have t1: "6 * (\<Sum>k = 0..?oi. tri (?oi - int (nat k))) = (?oi + 1) * (?oi + 2) * (?oi + 3)"
    using assms(1) by (intro sum_tet) simp
  have t2: "6 * (\<Sum>k = 0..?oi - 1. tri (?oi - 1 - int (nat k))) = ?oi * (?oi + 1) * (?oi + 2)"
    using sum_tet[of "?oi - 1"] assms(1) by (simp add: algebra_simps)
  have d1: "(?oi + 1) * (?oi + 2) * (?oi + 3) div 6 = (\<Sum>k = 0..?oi. tri (?oi - int (nat k)))"
    unfolding t1[symmetric] by simp
  have d2: "(?oi + 2) * (?oi + 1) * ?oi div 6 = (\<Sum>k = 0..?oi - 1. tri (?oi - 1 - int (nat k)))"
  proof -
    have "(?oi + 2) * (?oi + 1) * ?oi = 6 * (\<Sum>k = 0..?oi - 1. tri (?oi - 1 - int (nat k)))"
      unfolding t2 by (simp add: algebra_simps)
    then show ?thesis by simp
  qed
  have f: "(\<Sum>fa = 0..3. face_count (order_facet fe ! nat fa))
         = (order_facet fe ! 0 + 1) * (order_facet fe ! 0 + 2)
         + (order_facet fe ! 1 + 1) * (order_facet fe ! 1 + 2)
         + (order_facet fe ! 2 + 1) * (order_facet fe ! 2 + 2)
         + (order_facet fe ! 3 + 1) * (order_facet fe ! 3 + 2)"
    using assms(3-6) by (simp add: sum_0_3 face_count_small)
  have "fst S = ndof (ComputeNDof_TET fe)"
    unfolding S(2) ComputeNDof_TET_ndof ninner_TET_small[OF assms(1,2)] d1 d2 f by simp
  then show ?thesis using S by blast
qed

subsection \<open>Running the enumeration on concrete orders\<close>

lemmas run_simps =
  T_CalcShape_TRIG_def trig_edges_loop_def inner_pairs_def Let_def split_beta
  for_le_step for_le_stop emit_def aread_def afill_def block2_def
  ScaledLegendrePolynomial_def CalcTrigExt_def Legendre_Eval_def Legendre_EvalMult_def

lemma rows_111_1:
  "\<exists>v0 v1 v2 v3 v4 v5 u1 w1 u2 w2 l1 l2 t0 t1.
     T_CalcShape_TRIG E (make_fe vn [1, 1, 1] 1 False) ip =
       Inr (12, [(0, Some (Sigma_gradv v0)), (1, Some (Sigma_gradv v1)),
                 (2, Some (Sigma_gradv v2)), (3, Some (Sigma_gradv v3)),
                 (4, Some (Sigma_gradv v4)), (5, Some (Sigma_gradv v5)),
                 (6, Some (Sigma_gradu_v u1 w1)), (7, Some (Curlgraduv_graducurlv u1 w1)),
                 (8, Some (Sigma_gradu_v u2 w2)), (9, Some (Curlgraduv_graducurlv u2 w2)),
                 (10, Some (T_type4 l1 l2 t0)), (11, Some (T_type4 l1 l2 t1))])"
  by (simp add: run_simps make_fe_def upt_rec split del: if_split)

lemma face_bounds: "ddiv (int_to_double 2) 2 = 1" "ddiv (int_to_double 6) 2 = 3"
  by code_simp+

lemmas run_tet_simps =
  T_CalcShape_TET_def tet_faces_loop_def tet_type1_def tet_type2_def Let_def split_beta
  for_le_step for_le_stop for_lt_ceiling emit_def aread_def afill_def
  DubinerBasis3_Eval_def EvalScaled1Assign_def EvalScaledMult1Assign_def Jacobi_EvalMult_def

subsection \<open>When the enumeration throws\<close>



subsection \<open>The rows of an evaluation that returns\<close>




subsection \<open>Derivatives of the polynomial fields\<close>

lemma ad_field_eq:
  "ad_field p x y =
     \<lparr>Value = peval p x y,
      DValues = [peval (pdx p) x y, peval (pdy p) x y],
      DDValues = [[peval (pdx (pdx p)) x y, peval (pdy (pdx p)) x y],
                  [peval (pdx (pdy p)) x y, peval (pdy (pdy p)) x y]]\<rparr>"
  unfolding ad_field_def
proof (induction p)
  case (PMul p q)
  then show ?case
    by (simp add: ad_times_def DValue_def DDValue_def upt_rec algebra_simps)
qed (simp_all add: ad_var_def ad_const_def ad_plus_def numeral_2_eq_2)

lemma DERIV_peval_x: "((\<lambda>t. peval p t y) has_field_derivative peval (pdx p) x y) (at x)"
  by (induction p) (auto intro!: derivative_eq_intros)

lemma DERIV_peval_y: "((\<lambda>t. peval p x t) has_field_derivative peval (pdy p) x y) (at y)"
  by (induction p) (auto intro!: derivative_eq_intros)

lemma peval_mixed: "peval (pdx (pdy p)) x y = peval (pdy (pdx p)) x y"
  by (induction p) (simp_all add: algebra_simps)

lemma peval_pdx_cong:
  assumes "\<And>x y. peval p x y = peval q x y"
  shows "peval (pdx p) x y = peval (pdx q) x y"
proof -
  have "((\<lambda>t. peval p t y) has_field_derivative peval (pdx q) x y) (at x)"
    using DERIV_peval_x[of q y x] assms by simp
  then show ?thesis using DERIV_peval_x[of p y x] by (rule DERIV_unique[rotated])
qed

lemma peval_pdy_cong:
  assumes "\<And>x y. peval p x y = peval q x y"
  shows "peval (pdy p) x y = peval (pdy q) x y"
proof -
  have "((\<lambda>t. peval p x t) has_field_derivative peval (pdy q) x y) (at y)"
    using DERIV_peval_y[of q x y] assms by simp
  then show ?thesis using DERIV_peval_y[of p x y] by (rule DERIV_unique[rotated])
qed

lemma peval_yxy: "peval (pdy (pdx (pdy p))) x y = peval (pdy (pdy (pdx p))) x y"
  by (rule peval_pdy_cong) (rule peval_mixed)

lemma peval_xxy: "peval (pdx (pdx (pdy p))) x y = peval (pdy (pdx (pdx p))) x y"
proof -
  have "peval (pdx (pdx (pdy p))) x y = peval (pdx (pdy (pdx p))) x y"
    by (rule peval_pdx_cong) (rule peval_mixed)
  then show ?thesis by (simp add: peval_mixed)
qed

lemmas mixed_simps = peval_mixed peval_yxy peval_xxy

lemma ad_field_simps:
  "Value (ad_field p x y) = peval p x y"
  "DValue (ad_field p x y) 0 = peval (pdx p) x y"
  "DValue (ad_field p x y) 1 = peval (pdy p) x y"
  "DDValue (ad_field p x y) 0 0 = peval (pdx (pdx p)) x y"
  "DDValue (ad_field p x y) 0 1 = peval (pdy (pdx p)) x y"
  "DDValue (ad_field p x y) 1 0 = peval (pdy (pdx p)) x y"
  "DDValue (ad_field p x y) 1 1 = peval (pdy (pdy p)) x y"
  "DValue (ad_field p x y) (Suc 0) = peval (pdy p) x y"
  "DDValue (ad_field p x y) 0 (Suc 0) = peval (pdy (pdx p)) x y"
  "DDValue (ad_field p x y) (Suc 0) 0 = peval (pdy (pdx p)) x y"
  "DDValue (ad_field p x y) (Suc 0) (Suc 0) = peval (pdy (pdy p)) x y"
  by (simp_all add: ad_field_eq DValue_def DDValue_def peval_mixed)

lemma div_Sigma_gradv:
  "row_divergence (\<lambda>x y. Shape (Sigma_gradv (ad_field v x y))) x y
     (DivShape (Sigma_gradv (ad_field v x y)))"
  unfolding row_divergence_def
  apply (simp add: ad_field_simps)
  apply (intro exI conjI)
      apply (rule derivative_eq_intros DERIV_peval_x DERIV_peval_y refl)+
   apply (simp_all add: mixed_simps)
  done

lemma div_Sigma_gradu_v:
  "row_divergence (\<lambda>x y. Shape (Sigma_gradu_v (ad_field u x y) (ad_field v x y))) x y
     (DivShape (Sigma_gradu_v (ad_field u x y) (ad_field v x y)))"
  unfolding row_divergence_def
  apply (simp add: ad_field_simps)
  apply (intro exI conjI)
      apply (rule derivative_eq_intros DERIV_peval_x DERIV_peval_y refl)+
   apply (simp_all add: mixed_simps algebra_simps)
  done

lemma div_Curlgraduv_graducurlv:
  "row_divergence (\<lambda>x y. Shape (Curlgraduv_graducurlv (ad_field u x y) (ad_field v x y))) x y
     (DivShape (Curlgraduv_graducurlv (ad_field u x y) (ad_field v x y)))"
  unfolding row_divergence_def
  apply (simp add: ad_field_simps Let_def)
  apply (intro exI conjI)
      apply (rule derivative_eq_intros DERIV_peval_x DERIV_peval_y refl)+
   apply (simp_all add: mixed_simps algebra_simps)
  done

lemma div_T_type4:
  "row_divergence
     (\<lambda>x y. Shape (T_type4 (ad_field l1 x y) (ad_field l2 x y) (ad_field v x y))) x y
     (DivShape (T_type4 (ad_field l1 x y) (ad_field l2 x y) (ad_field v x y)))"
  unfolding row_divergence_def
  apply (simp add: ad_field_simps Let_def)
  apply (intro exI conjI)
      apply (rule derivative_eq_intros DERIV_peval_x DERIV_peval_y refl)+
   apply (simp_all add: mixed_simps algebra_simps)
  done

section \<open>The claims\<close>

text \<open>
  C1, amended. For the triangle with \<^verbatim>\<open>order_facet = [1,1,1]\<close>, \<^verbatim>\<open>order_inner = 1\<close>,
  \<^verbatim>\<open>plus = false\<close> (and any vertex numbers and collaborators), \<^verbatim>\<open>ComputeNDof\<close> reports
  \<^verbatim>\<open>ndof = 12\<close>, and the evaluation at the centroid writes exactly 12 rows, with 4 shape
  values and 2 divergence values each: rows 0 to 5 are the edge functions
  (\<^verbatim>\<open>Sigma_gradv\<close>), with divergence exactly \<open>(0, 0)\<close>; of the 6 interior rows, rows 6 and 8
  (\<^verbatim>\<open>Sigma_gradu_v\<close>) and rows 10 and 11 (\<^verbatim>\<open>T_type4\<close>) have divergence exactly \<open>(0, 0)\<close>,
  and rows 7 and 9 are functions of the family \<^verbatim>\<open>Curlgraduv_graducurlv\<close>, whose
  divergence is \<open>-2 (-u\<^sub>x\<^sub>x v\<^sub>y + u\<^sub>x\<^sub>y v\<^sub>x, -u\<^sub>x\<^sub>y v\<^sub>y + u\<^sub>y\<^sub>y v\<^sub>x)\<close> of the two polynomial values
  they are built from.
\<close>

theorem C1_trig_111_1_amended:
  "ndof (ComputeNDof_TRIG (make_fe vn [1, 1, 1] 1 False)) = 12
   \<and> (\<exists>v0 v1 v2 v3 v4 v5 u1 w1 u2 w2 l1 l2 t0 t1.
        T_CalcShape_TRIG E (make_fe vn [1, 1, 1] 1 False) centroid2 =
          Inr (12, [(0, Some (Sigma_gradv v0)), (1, Some (Sigma_gradv v1)),
                    (2, Some (Sigma_gradv v2)), (3, Some (Sigma_gradv v3)),
                    (4, Some (Sigma_gradv v4)), (5, Some (Sigma_gradv v5)),
                    (6, Some (Sigma_gradu_v u1 w1)), (7, Some (Curlgraduv_graducurlv u1 w1)),
                    (8, Some (Sigma_gradu_v u2 w2)), (9, Some (Curlgraduv_graducurlv u2 w2)),
                    (10, Some (T_type4 l1 l2 t0)), (11, Some (T_type4 l1 l2 t1))])
        \<and> CalcDivShape E ET_TRIG (make_fe vn [1, 1, 1] 1 False) [1 / 3, 1 / 3] =
          Inr [(0, Some [0, 0]), (1, Some [0, 0]), (2, Some [0, 0]),
               (3, Some [0, 0]), (4, Some [0, 0]), (5, Some [0, 0]),
               (6, Some [0, 0]),
               (7, Some [- 2 * (- DDValue u1 0 0 * DValue w1 1 + DDValue u1 0 1 * DValue w1 0),
                         - 2 * (- DDValue u1 0 1 * DValue w1 1 + DDValue u1 1 1 * DValue w1 0)]),
               (8, Some [0, 0]),
               (9, Some [- 2 * (- DDValue u2 0 0 * DValue w2 1 + DDValue u2 0 1 * DValue w2 0),
                         - 2 * (- DDValue u2 0 1 * DValue w2 1 + DDValue u2 1 1 * DValue w2 0)]),
               (10, Some [0, 0]), (11, Some [0, 0])])
   \<and> (\<exists>w. CalcShape E ET_TRIG (make_fe vn [1, 1, 1] 1 False) [1 / 3, 1 / 3] = Inr w
           \<and> map (\<lambda>r. (fst r, map_option length (snd r))) w =
               [(0, Some 4), (1, Some 4), (2, Some 4), (3, Some 4), (4, Some 4), (5, Some 4),
                (6, Some 4), (7, Some 4), (8, Some 4), (9, Some 4), (10, Some 4), (11, Some 4)])"
proof -
  have adp: "map (\<lambda>i. ad_var (DIM ET_TRIG) ([1 / 3, 1 / 3] ! i) i) [0..<DIM ET_TRIG] = centroid2"
    by (simp add: centroid2_def upt_rec)
  obtain v0 v1 v2 v3 v4 v5 u1 w1 u2 w2 l1 l2 t0 t1 where rows:
    "T_CalcShape_TRIG E (make_fe vn [1, 1, 1] 1 False) centroid2 =
       Inr (12, [(0, Some (Sigma_gradv v0)), (1, Some (Sigma_gradv v1)),
                 (2, Some (Sigma_gradv v2)), (3, Some (Sigma_gradv v3)),
                 (4, Some (Sigma_gradv v4)), (5, Some (Sigma_gradv v5)),
                 (6, Some (Sigma_gradu_v u1 w1)), (7, Some (Curlgraduv_graducurlv u1 w1)),
                 (8, Some (Sigma_gradu_v u2 w2)), (9, Some (Curlgraduv_graducurlv u2 w2)),
                 (10, Some (T_type4 l1 l2 t0)), (11, Some (T_type4 l1 l2 t1))])"
    using rows_111_1[of E vn centroid2] by blast
  have n: "ndof (ComputeNDof_TRIG (make_fe vn [1, 1, 1] 1 False)) = 12"
    by (simp add: ComputeNDof_TRIG_ndof make_fe_def)
  have d: "CalcDivShape E ET_TRIG (make_fe vn [1, 1, 1] 1 False) [1 / 3, 1 / 3] =
          Inr [(0, Some [0, 0]), (1, Some [0, 0]), (2, Some [0, 0]),
               (3, Some [0, 0]), (4, Some [0, 0]), (5, Some [0, 0]),
               (6, Some [0, 0]),
               (7, Some [- 2 * (- DDValue u1 0 0 * DValue w1 1 + DDValue u1 0 1 * DValue w1 0),
                         - 2 * (- DDValue u1 0 1 * DValue w1 1 + DDValue u1 1 1 * DValue w1 0)]),
               (8, Some [0, 0]),
               (9, Some [- 2 * (- DDValue u2 0 0 * DValue w2 1 + DDValue u2 0 1 * DValue w2 0),
                         - 2 * (- DDValue u2 0 1 * DValue w2 1 + DDValue u2 1 1 * DValue w2 0)]),
               (10, Some [0, 0]), (11, Some [0, 0])]"
    unfolding CalcDivShape_def Let_def adp T_CalcShape.simps rows
    by (simp add: write_rows_def Let_def)
  have s: "\<exists>w. CalcShape E ET_TRIG (make_fe vn [1, 1, 1] 1 False) [1 / 3, 1 / 3] = Inr w
           \<and> map (\<lambda>r. (fst r, map_option length (snd r))) w =
               [(0, Some 4), (1, Some 4), (2, Some 4), (3, Some 4), (4, Some 4), (5, Some 4),
                (6, Some 4), (7, Some 4), (8, Some 4), (9, Some 4), (10, Some 4), (11, Some 4)]"
    unfolding CalcShape_def Let_def adp T_CalcShape.simps rows
    by (simp add: write_rows_def Let_def)
  show ?thesis using n rows d s by blast
qed

text \<open>
  The count of the claim, 10, is not what the code computes: the interior count is
  \<open>(1 + 1) + 2 (1 + 1) 1 = 6\<close>, not 4.
\<close>

theorem C1_ndof_is_not_10_counterexample:
  "ndof (ComputeNDof_TRIG (make_fe [0, 1, 2] [1, 1, 1] 1 False)) \<noteq> 10
   \<and> ndof (ComputeNDof_TRIG (make_fe [0, 1, 2] [1, 1, 1] 1 False)) = 12
   \<and> \<not> isl (T_CalcShape_TRIG example_env (make_fe [0, 1, 2] [1, 1, 1] 1 False) centroid2)
   \<and> length (snd (projr (T_CalcShape_TRIG example_env (make_fe [0, 1, 2] [1, 1, 1] 1 False)
                            centroid2))) = 12"
  using rows_111_1[of example_env "[0, 1, 2]" centroid2]
  by (auto simp: ComputeNDof_TRIG_ndof make_fe_def)

text \<open>
  C2. For every triangle order specification with facet orders and interior order in
  \<open>0..6\<close> and \<^verbatim>\<open>plus = false\<close>, \<^verbatim>\<open>ComputeNDof\<close> sets \<^verbatim>\<open>ndof\<close> to the sum of
  \<open>order_facet[f] + 1\<close> over the three facets plus
  \<open>(order_inner + 1) + 2 (order_inner + 1) order_inner\<close>, sets \<^verbatim>\<open>order\<close> to the maximum of
  the facet orders and the interior order, and \<^verbatim>\<open>T_CalcShape\<close> (hence \<^verbatim>\<open>CalcShape\<close> and
  \<^verbatim>\<open>CalcDivShape\<close>) writes exactly the rows \<open>0, ..., ndof - 1\<close>, each once.
\<close>

theorem C2_trig_ndof_and_rows:
  assumes "order_facet fe = [f0, f1, f2]"
    and "0 \<le> f0 \<and> f0 \<le> 6" and "0 \<le> f1 \<and> f1 \<le> 6" and "0 \<le> f2 \<and> f2 \<le> 6"
    and "0 \<le> order_inner fe \<and> order_inner fe \<le> 6"
    and "\<not> plus_flag fe"
  shows "ndof (ComputeNDof_TRIG fe)
           = (f0 + 1) + (f1 + 1) + (f2 + 1)
             + ((order_inner fe + 1) + 2 * (order_inner fe + 1) * order_inner fe)
       \<and> order (ComputeNDof_TRIG fe) = Max {f0, f1, f2, order_inner fe}
       \<and> (\<exists>rows. T_CalcShape_TRIG E fe ip = Inr (ndof (ComputeNDof_TRIG fe), rows)
                  \<and> map fst rows = [0..ndof (ComputeNDof_TRIG fe) - 1])
       \<and> (\<exists>w. CalcShape E ET_TRIG fe p = Inr w \<and> map fst w = [0..ndof (ComputeNDof_TRIG fe) - 1])
       \<and> (\<exists>w. CalcDivShape E ET_TRIG fe p = Inr w
                \<and> map fst w = [0..ndof (ComputeNDof_TRIG fe) - 1])"
proof -
  have of: "order_facet fe ! 0 = f0" "order_facet fe ! 1 = f1" "order_facet fe ! 2 = f2"
    "order_facet fe ! Suc 0 = f1"
    using assms(1) by simp_all
  have n: "ndof (ComputeNDof_TRIG fe)
           = (f0 + 1) + (f1 + 1) + (f2 + 1)
             + ((order_inner fe + 1) + 2 * (order_inner fe + 1) * order_inner fe)"
    using assms(6) by (simp add: ComputeNDof_TRIG_ndof of algebra_simps)
  have o: "order (ComputeNDof_TRIG fe) = Max {f0, f1, f2, order_inner fe}"
    using assms by (simp add: ComputeNDof_TRIG_order of max_def)
  have rows: "\<exists>S. T_CalcShape_TRIG E fe ip = Inr S \<and> numbered S \<and> fst S = ndof (ComputeNDof_TRIG fe)"
    for ip
    using assms by (intro T_CalcShape_TRIG_no_plus) (simp_all add: of)
  have r1: "\<exists>rows. T_CalcShape_TRIG E fe ip = Inr (ndof (ComputeNDof_TRIG fe), rows)
                  \<and> map fst rows = [0..ndof (ComputeNDof_TRIG fe) - 1]"
    using rows[of ip] by (auto simp: numbered_def)
  have r2: "\<exists>w. write_rows f (T_CalcShape E ET_TRIG fe ip) = Inr w
              \<and> map fst w = [0..ndof (ComputeNDof_TRIG fe) - 1]" for f ip
    using rows[of ip] write_rows_numbered[of _ f] by fastforce
  show ?thesis
    using n o r1 r2 unfolding CalcShape_def CalcDivShape_def Let_def by blast
qed

theorem C2_trig_ndof_and_rows_witness:
  "order_facet (make_fe [0, 1, 2] [1, 2, 3] 2 False) = [1, 2, 3]
   \<and> \<not> plus_flag (make_fe [0, 1, 2] [1, 2, 3] 2 False)
   \<and> ndof (ComputeNDof_TRIG (make_fe [0, 1, 2] [1, 2, 3] 2 False)) = 24
   \<and> order (ComputeNDof_TRIG (make_fe [0, 1, 2] [1, 2, 3] 2 False)) = 3
   \<and> (\<exists>rows. T_CalcShape_TRIG example_env (make_fe [0, 1, 2] [1, 2, 3] 2 False) centroid2
                = Inr (24, rows) \<and> map fst rows = [0..23])"
  using C2_trig_ndof_and_rows[of "make_fe [0, 1, 2] [1, 2, 3] 2 False" 1 2 3 example_env centroid2 "[1 / 3, 1 / 3]"]
  by (auto simp: make_fe_def)

text \<open>
  C3. For every tetrahedron order specification with facet orders and interior order in
  \<open>0..6\<close>, \<^verbatim>\<open>ComputeNDof\<close> sets \<^verbatim>\<open>ndof\<close> to the sum of
  \<open>(order_facet[f] + 1) (order_facet[f] + 2)\<close> over the four facets plus
  \<open>C(order_inner + 3, 3) + (8/6) (order_inner + 2) (order_inner + 1) order_inner\<close>; neither
  \<^verbatim>\<open>ndof\<close> nor the enumeration depends on \<^verbatim>\<open>plus\<close> (no exception is thrown for it), and
  the enumeration writes exactly the rows \<open>0, ..., ndof - 1\<close>. A row of face 3 may be
  built from an entry of \<^verbatim>\<open>ha\<close> outside the evaluated range (see C8); it is written
  and counted all the same.
\<close>

theorem C3_tet_ndof_and_rows:
  assumes "order_facet fe = [f0, f1, f2, f3]"
    and "0 \<le> f0 \<and> f0 \<le> 6" and "0 \<le> f1 \<and> f1 \<le> 6"
    and "0 \<le> f2 \<and> f2 \<le> 6" and "0 \<le> f3 \<and> f3 \<le> 6"
    and "0 \<le> order_inner fe \<and> order_inner fe \<le> 6"
  shows "(of_int (ndof (ComputeNDof_TET fe)) :: rat)
           = of_int ((f0 + 1) * (f0 + 2) + (f1 + 1) * (f1 + 2) + (f2 + 1) * (f2 + 2)
                      + (f3 + 1) * (f3 + 2))
             + of_nat ((nat (order_inner fe) + 3) choose 3)
             + (8 / 6) * of_int ((order_inner fe + 2) * (order_inner fe + 1) * order_inner fe)
       \<and> ndof (ComputeNDof_TET (fe\<lparr>plus_flag := b\<rparr>)) = ndof (ComputeNDof_TET fe)
       \<and> T_CalcShape_TET E (fe\<lparr>plus_flag := b\<rparr>) ip = T_CalcShape_TET E fe ip
       \<and> (\<exists>rows. T_CalcShape_TET E fe ip = Inr (ndof (ComputeNDof_TET fe), rows)
                  \<and> map fst rows = [0..ndof (ComputeNDof_TET fe) - 1])
       \<and> (\<exists>w. CalcShape E ET_TET fe p = Inr w \<and> map fst w = [0..ndof (ComputeNDof_TET fe) - 1])
       \<and> (\<exists>w. CalcDivShape E ET_TET fe p = Inr w
                \<and> map fst w = [0..ndof (ComputeNDof_TET fe) - 1])"
proof -
  let ?oi = "order_inner fe"
  have of: "order_facet fe ! 0 = f0" "order_facet fe ! 1 = f1" "order_facet fe ! 2 = f2"
    "order_facet fe ! 3 = f3"
    using assms(1) by simp_all
  have six: "6 dvd (?oi + 2) * (?oi + 1) * ?oi"
  proof -
    have "0 \<le> ?oi" "?oi \<le> 6" using assms(6) by simp_all
    from small_cases[OF this] show ?thesis by (elim disjE) simp_all
  qed
  have "(8 / 6) * (of_int ((?oi + 2) * (?oi + 1) * ?oi) :: rat)
        = of_int (8 * ((?oi + 2) * (?oi + 1) * ?oi div 6))"
  proof -
    obtain q where q: "(?oi + 2) * (?oi + 1) * ?oi = 6 * q" using six by (auto simp: dvd_def)
    show ?thesis unfolding q by simp
  qed
  moreover have "(of_nat ((nat ?oi + 3) choose 3) :: rat)
        = of_int ((?oi + 1) * (?oi + 2) * (?oi + 3) div 6)"
  proof -
    have "int ((nat ?oi + 3) choose 3) = (?oi + 1) * (?oi + 2) * (?oi + 3) div 6"
      using assms(6) by (intro choose3_small) simp_all
    then have "(of_int (int ((nat ?oi + 3) choose 3)) :: rat)
        = of_int ((?oi + 1) * (?oi + 2) * (?oi + 3) div 6)" by (rule arg_cong)
    then show ?thesis by simp
  qed
  moreover have "ninner_TET ?oi = (?oi + 1) * (?oi + 2) * (?oi + 3) div 6 + 8 * ((?oi + 2) * (?oi + 1) * ?oi div 6)"
    using assms(6) by (intro ninner_TET_small) simp_all
  ultimately have n: "(of_int (ndof (ComputeNDof_TET fe)) :: rat)
           = of_int ((f0 + 1) * (f0 + 2) + (f1 + 1) * (f1 + 2) + (f2 + 1) * (f2 + 2)
                      + (f3 + 1) * (f3 + 2))
             + of_nat ((nat ?oi + 3) choose 3)
             + (8 / 6) * of_int ((?oi + 2) * (?oi + 1) * ?oi)"
    unfolding ComputeNDof_TET_ndof of by simp
  have rows: "\<exists>S. T_CalcShape_TET E fe ip = Inr S \<and> numbered S \<and> fst S = ndof (ComputeNDof_TET fe)"
    for ip
    using assms by (intro T_CalcShape_TET_rows) (simp_all add: of)
  have r1: "\<exists>rows. T_CalcShape_TET E fe ip = Inr (ndof (ComputeNDof_TET fe), rows)
                  \<and> map fst rows = [0..ndof (ComputeNDof_TET fe) - 1]"
    using rows[of ip] by (auto simp: numbered_def)
  have r2: "\<exists>w. write_rows f (T_CalcShape E ET_TET fe ip) = Inr w
              \<and> map fst w = [0..ndof (ComputeNDof_TET fe) - 1]" for f ip
    using rows[of ip] write_rows_numbered[of _ f] by fastforce
  show ?thesis
    using n r1 r2 ComputeNDof_TET_plus T_CalcShape_TET_plus
    unfolding CalcShape_def CalcDivShape_def Let_def by blast
qed

theorem C3_tet_ndof_and_rows_witness:
  "order_facet (make_fe [0, 1, 2, 3] [1, 0, 2, 3] 2 True) = [1, 0, 2, 3]
   \<and> ndof (ComputeNDof_TET (make_fe [0, 1, 2, 3] [1, 0, 2, 3] 2 True)) = 82
   \<and> ndof (ComputeNDof_TET (make_fe [0, 1, 2, 3] [1, 0, 2, 3] 2 False)) = 82
   \<and> (\<exists>rows. T_CalcShape_TET example_env (make_fe [0, 1, 2, 3] [1, 0, 2, 3] 2 True) centroid3
                = Inr (82, rows) \<and> map fst rows = [0..81])"
  using C3_tet_ndof_and_rows[of "make_fe [0, 1, 2, 3] [1, 0, 2, 3] 2 True" 1 0 2 3 False example_env centroid3 "[1 / 4, 1 / 4, 1 / 4]"]
  by (auto simp: make_fe_def eval_nat_numeral)

text \<open>
  C4. For all polynomial input fields, \<^verbatim>\<open>DivShape()\<close> of each of the building blocks
  \<^verbatim>\<open>Sigma_gradv\<close>, \<^verbatim>\<open>Sigma_gradu_v\<close>, \<^verbatim>\<open>Curlgraduv_graducurlv\<close> and \<^verbatim>\<open>T_type4\<close> is, at
  every point, the row-wise divergence of the field of the values of \<^verbatim>\<open>Shape()\<close>; it is
  the zero vector for \<^verbatim>\<open>Sigma_gradv\<close>, \<^verbatim>\<open>Sigma_gradu_v\<close> and \<^verbatim>\<open>T_type4\<close>, and
  \<open>-2 (-u\<^sub>x\<^sub>x v\<^sub>y + u\<^sub>x\<^sub>y v\<^sub>x, -u\<^sub>x\<^sub>y v\<^sub>y + u\<^sub>y\<^sub>y v\<^sub>x)\<close> for \<^verbatim>\<open>Curlgraduv_graducurlv\<close>.
\<close>

theorem C4_DivShape_is_exact_divergence:
  "row_divergence (\<lambda>x y. Shape (Sigma_gradv (ad_field v x y))) x y
     (DivShape (Sigma_gradv (ad_field v x y)))
   \<and> row_divergence (\<lambda>x y. Shape (Sigma_gradu_v (ad_field u x y) (ad_field v x y))) x y
       (DivShape (Sigma_gradu_v (ad_field u x y) (ad_field v x y)))
   \<and> row_divergence (\<lambda>x y. Shape (Curlgraduv_graducurlv (ad_field u x y) (ad_field v x y))) x y
       (DivShape (Curlgraduv_graducurlv (ad_field u x y) (ad_field v x y)))
   \<and> row_divergence
       (\<lambda>x y. Shape (T_type4 (ad_field l1 x y) (ad_field l2 x y) (ad_field v x y))) x y
       (DivShape (T_type4 (ad_field l1 x y) (ad_field l2 x y) (ad_field v x y)))
   \<and> DivShape (Sigma_gradv (ad_field v x y)) = [0, 0]
   \<and> DivShape (Sigma_gradu_v (ad_field u x y) (ad_field v x y)) = [0, 0]
   \<and> DivShape (T_type4 (ad_field l1 x y) (ad_field l2 x y) (ad_field v x y)) = [0, 0]
   \<and> DivShape (Curlgraduv_graducurlv (ad_field u x y) (ad_field v x y))
       = [- 2 * (- peval (pdx (pdx u)) x y * peval (pdy v) x y
                 + peval (pdy (pdx u)) x y * peval (pdx v) x y),
          - 2 * (- peval (pdy (pdx u)) x y * peval (pdy v) x y
                 + peval (pdy (pdy u)) x y * peval (pdx v) x y)]"
  using div_Sigma_gradv[of v x y] div_Sigma_gradu_v[of u v x y]
    div_Curlgraduv_graducurlv[of u v x y] div_T_type4[of l1 l2 v x y]
  by (simp add: ad_field_simps Let_def)




text \<open>
  C6. For every input, \<^verbatim>\<open>DivShape\<close> of the surface building block
  \<^verbatim>\<open>T_Dl1_o_Dl2xDl3_v_surf\<close> throws the exception "not available on surface"; it never
  returns a vector.
\<close>

theorem C6_surface_DivShape_raises:
  "DivShape_surf b = Inl (Exception ''not available on surface'')
   \<and> isl (DivShape_surf b)"
  by (cases b) simp

text \<open>
  C7 (the code does not do what the claim says). \<^verbatim>\<open>ComputeNDof\<close> of the unspecialised
  bases \<^verbatim>\<open>T_HCurlDivFE\<close> and \<^verbatim>\<open>T_HCurlDivSurfaceFE\<close> writes a line that starts with
  "Error" to \<^verbatim>\<open>cout\<close> and returns normally; the element, its \<^verbatim>\<open>ndof\<close> included, is
  unchanged. No exception is thrown.
\<close>

theorem C7_base_ComputeNDof_returns:
  "T_HCurlDivFE_ComputeNDof (fe, out)
     = Inr (fe, out @ [''Error, T_HCurlDivFE<ET>:: ComputeNDof not available, only for ET == TRIG''])
   \<and> T_HCurlDivSurfaceFE_ComputeNDof (sfe, out)
     = Inr (sfe, out @ [''Error, T_HCurlDivSurfaceFE<ET>:: ComputeNDof not available for base class''])"
  by (simp add: T_HCurlDivFE_ComputeNDof_def T_HCurlDivSurfaceFE_ComputeNDof_def)

text \<open>
  C8 (the code does not do what the claim says). \<^verbatim>\<open>maxorder_facet\<close> of the tetrahedron
  is the maximum of the orders of the faces 0, 1 and 2 only. With
  \<^verbatim>\<open>order_facet = [0,0,0,1]\<close> the face basis is evaluated up to order 0, one entry, and
  face 3 reads the entries 0, 1 and 2: the rows 8 to 11 are built from entries outside
  the evaluated range.
\<close>

theorem C8_face3_reads_outside_evaluated_range:
  "map (\<lambda>r. (fst r, snd r = None))
     (snd (projr (T_CalcShape_TET E (make_fe vn [0, 0, 0, 1] 0 False) ip)))
   = [(0, False), (1, False), (2, False), (3, False), (4, False), (5, False),
      (6, False), (7, False), (8, True), (9, True), (10, True), (11, True), (12, False)]
   \<and> length (DubinerBasis3_Eval E (max 0 (max 0 0)) x y []) = 1
   \<and> ndof (ComputeNDof_TET (make_fe vn [0, 0, 0, 1] 0 False)) = 13"
  by (simp add: run_tet_simps make_fe_def face_bounds upt_rec ComputeNDof_TET_ndof ninner_TET_values
        split del: if_split)

text \<open>
  C9, amended. For the triangle with \<^verbatim>\<open>plus = true\<close>, facet orders in \<open>0..6\<close> and
  \<open>order_inner\<close> in \<open>1..6\<close>, every shape evaluation (\<^verbatim>\<open>T_CalcShape\<close>, hence \<^verbatim>\<open>CalcShape\<close>
  and \<^verbatim>\<open>CalcDivShape\<close>) throws the exception "not working yet!".
\<close>

theorem C9_trig_plus_raises:
  assumes "order_facet fe = [f0, f1, f2]"
    and "0 \<le> f0 \<and> f0 \<le> 6" and "0 \<le> f1 \<and> f1 \<le> 6" and "0 \<le> f2 \<and> f2 \<le> 6"
    and "plus_flag fe"
    and "1 \<le> order_inner fe \<and> order_inner fe \<le> 6"
  shows "T_CalcShape_TRIG E fe ip = Inl (Exception ''not working yet!'')
       \<and> CalcShape E ET_TRIG fe p = Inl (Exception ''not working yet!'')
       \<and> CalcDivShape E ET_TRIG fe p = Inl (Exception ''not working yet!'')"
proof -
  have "T_CalcShape_TRIG E fe ip = Inl (Exception ''not working yet!'')" for ip
    using T_CalcShape_TRIG_shape[of fe E ip] assms(5,6)
    by (auto simp: for_le_exn.simps[of 0])
  then show ?thesis
    by (simp add: CalcShape_def CalcDivShape_def write_rows_def)
qed

theorem C9_trig_plus_raises_witness:
  "order_facet (make_fe [0, 1, 2] [0, 0, 0] 1 True) = [0, 0, 0]
   \<and> plus_flag (make_fe [0, 1, 2] [0, 0, 0] 1 True)
   \<and> 1 \<le> order_inner (make_fe [0, 1, 2] [0, 0, 0] 1 True)
   \<and> order_inner (make_fe [0, 1, 2] [0, 0, 0] 1 True) \<le> 6
   \<and> T_CalcShape_TRIG example_env (make_fe [0, 1, 2] [0, 0, 0] 1 True) centroid2
       = Inl (Exception ''not working yet!'')
   \<and> CalcShape example_env ET_TRIG (make_fe [0, 1, 2] [0, 0, 0] 1 True) [1 / 3, 1 / 3]
       = Inl (Exception ''not working yet!'')
   \<and> CalcDivShape example_env ET_TRIG (make_fe [0, 1, 2] [0, 0, 0] 1 True) [1 / 3, 1 / 3]
       = Inl (Exception ''not working yet!'')"
  using C9_trig_plus_raises[of "make_fe [0, 1, 2] [0, 0, 0] 1 True" 0 0 0 example_env centroid2
          "[1 / 3, 1 / 3]"]
  by (simp add: make_fe_def)

text \<open>
  For \<open>order_inner = 0\<close> the loop over the enrichment bubbles has no iteration, so the
  \<^verbatim>\<open>throw\<close> in its body is not reached: with \<^verbatim>\<open>plus = true\<close> the evaluation returns
  normally, here with the four rows of three edges of order 0 and one interior function.
\<close>

theorem C9_plus_order0_counterexample:
  "plus_flag (make_fe [0, 1, 2] [0, 0, 0] 0 True)
   \<and> 0 \<le> order_inner (make_fe [0, 1, 2] [0, 0, 0] 0 True)
   \<and> \<not> isl (T_CalcShape_TRIG example_env (make_fe [0, 1, 2] [0, 0, 0] 0 True) centroid2)
   \<and> fst (projr (T_CalcShape_TRIG example_env (make_fe [0, 1, 2] [0, 0, 0] 0 True) centroid2)) = 4
   \<and> map fst (snd (projr (T_CalcShape_TRIG example_env (make_fe [0, 1, 2] [0, 0, 0] 0 True) centroid2)))
       = [0, 1, 2, 3]"
  using T_CalcShape_TRIG_shape[of "make_fe [0, 1, 2] [0, 0, 0] 0 True" example_env centroid2]
  by (auto simp: make_fe_def for_le_exn.simps[of 0] sum_0_2 numbered_def upto_rec1)



end
